theory Spec2Isabelle
  imports Complex_Main "HOL-Library.Char_ord" "HOL-Library.List_Lexorder"
begin

section \<open>JavaScript strings\<close>

text \<open>
  A JavaScript string is modelled by the list of its code units, restricted to
  the code units below 256 (\<^typ>\<open>char\<close>).  On this range \<open>String.prototype.trim\<close>
  removes the characters TAB, LF, VT, FF, CR, SPACE and NBSP, and
  \<open>toLowerCase\<close> maps \<open>A\<close>..\<open>Z\<close> and the capital letters of the Latin-1 supplement
  to their small forms.
\<close>

definition isWhiteSpace :: "char \<Rightarrow> bool" where
  "isWhiteSpace c \<longleftrightarrow>
     (let n = (of_char c :: nat) in (9 \<le> n \<and> n \<le> 13) \<or> n = 32 \<or> n = 160)"

definition trim :: "string \<Rightarrow> string" where
  "trim s = rev (dropWhile isWhiteSpace (rev (dropWhile isWhiteSpace s)))"

definition lowerChar :: "char \<Rightarrow> char" where
  "lowerChar c =
     (let n = (of_char c :: nat)
      in if (65 \<le> n \<and> n \<le> 90) \<or> (192 \<le> n \<and> n \<le> 222 \<and> n \<noteq> 215)
         then char_of (n + 32) else c)"

definition toLowerCase :: "string \<Rightarrow> string" where
  "toLowerCase s = map lowerChar s"

definition startsWith :: "string \<Rightarrow> string \<Rightarrow> bool" where
  "startsWith s p \<longleftrightarrow> take (length p) s = p"

text \<open>
  \<open>s.replace(pat, rep)\<close> with a string pattern replaces the first occurrence of
  \<open>pat\<close> in \<open>s\<close> (the replacement texts of this program contain no \<open>$\<close>).
\<close>

fun replace :: "string \<Rightarrow> string \<Rightarrow> string \<Rightarrow> string" where
  "replace [] pat rep = (if pat = [] then rep else [])"
| "replace (c # cs) pat rep =
     (if startsWith (c # cs) pat then rep @ drop (length pat) (c # cs)
      else c # replace cs pat rep)"

subsection \<open>Subreddit name normalisation\<close>

text \<open>
  \<open>SubredditService.createSubreddit\<close> (lines 26--30) and
  \<open>SubredditService.getSubredditByName\<close> (lines 103--107) both compute
  \<^verbatim>\<open>
  var normalizedName = name.trim().toLowerCase();
  if (normalizedName.startsWith('r/')) {
      normalizedName = normalizedName.replace('r/', '');
  }
  \<close>
\<close>

definition normalizeName :: "string \<Rightarrow> string" where
  "normalizeName name =
     (let normalizedName = toLowerCase (trim name)
      in if startsWith normalizedName ''r/'' then replace normalizedName ''r/'' ''''
         else normalizedName)"

section \<open>JavaScript numbers and the values used as identifiers\<close>

text \<open>
  A JavaScript number is a double.  The numbers of this program are identifiers,
  page numbers and counts, so the model has the numbers with an integral value
  (\<open>Whole n\<close>), the two infinities and \<open>NaN\<close>; numbers with a fractional part are
  not values of the model, and \<open>-0\<close> is not told from \<open>0\<close>.  \<open>Whole n\<close> is a
  JavaScript number when \<open>n\<close> is a double, that is when \<open>toDouble n = Whole n\<close>; every
  \<^emph>\<open>safe\<close> integer (absolute value below \<open>2^53 = 9007199254740992\<close>) is one.
\<close>

datatype js_number = Whole int | PlusInfinity | MinusInfinity | NotANumber

text \<open>
  The \<open>id\<close> argument of the service operations is a JavaScript value: \<open>undefined\<close>,
  \<open>null\<close>, a number (\<open>JNumber n\<close> has the integral value \<open>n\<close>) or a string.  Booleans
  and objects are not values of the model.
\<close>

datatype js_value =
  JUndefined | JNull | JNumber int | JInfinity | JMinusInfinity | JNaN | JString string

fun truthy :: "js_value \<Rightarrow> bool" where
  "truthy JUndefined = False"
| "truthy JNull = False"
| "truthy (JNumber n) = (n \<noteq> 0)"
| "truthy JInfinity = True"
| "truthy JMinusInfinity = True"
| "truthy JNaN = False"
| "truthy (JString s) = (s \<noteq> [])"

text \<open>
  The double nearest to an integer, ties to the even mantissa: an integer of more
  than 53 bits keeps its 53 leading bits, rounded, and a result of more than 1024
  bits is an infinity.
\<close>

function bitLength :: "int \<Rightarrow> nat" where
  "bitLength n = (if n \<le> 0 then 0 else Suc (bitLength (n div 2)))"
  by pat_completeness auto
termination
  by (relation "measure nat") auto

definition toDouble :: "int \<Rightarrow> js_number" where
  "toDouble n =
     (let a = \<bar>n\<bar>;
          e = bitLength a - 53;
          q = a div 2 ^ e;
          r = a mod 2 ^ e;
          roundUp = (2 ^ e < 2 * r \<or> (2 * r = 2 ^ e \<and> odd q));
          v = (if roundUp then q + 1 else q) * 2 ^ e
      in if 1024 < bitLength v then (if n < 0 then MinusInfinity else PlusInfinity)
         else Whole (if n < 0 then - v else v))"

definition isDigit :: "char \<Rightarrow> bool" where
  "isDigit c \<longleftrightarrow> (let n = (of_char c :: nat) in 48 \<le> n \<and> n \<le> 57)"

definition isHexDigit :: "char \<Rightarrow> bool" where
  "isHexDigit c \<longleftrightarrow>
     (let n = (of_char c :: nat)
      in (48 \<le> n \<and> n \<le> 57) \<or> (65 \<le> n \<and> n \<le> 70) \<or> (97 \<le> n \<and> n \<le> 102))"

definition digitValue :: "char \<Rightarrow> int" where
  "digitValue c =
     (let n = (of_char c :: nat)
      in int (if n \<le> 57 then n - 48 else if n \<le> 70 then n - 55 else n - 87))"

definition digitsValue :: "int \<Rightarrow> string \<Rightarrow> int" where
  "digitsValue radix ds = foldl (\<lambda>acc c. acc * radix + digitValue c) 0 ds"

text \<open>
  \<open>parseInt(string)\<close> without a radix: leading white space is skipped, a sign is
  read, a \<open>0x\<close> or \<open>0X\<close> prefix selects radix 16, and the longest prefix of digits
  is converted; no digit gives \<open>NaN\<close>.  The result is a number, so the integer read
  is rounded to a double and a very long text gives an infinity.  (The language
  lets an implementation approximate a decimal text after its 20th significant
  digit; the rounding here is the exact one, which Node.js performs.)
\<close>

definition parseInt_string :: "string \<Rightarrow> js_number" where
  "parseInt_string input =
     (let s = dropWhile isWhiteSpace input;
          sign = (if startsWith s ''-'' then - 1 else 1);
          s1 = (if startsWith s ''-'' \<or> startsWith s ''+'' then drop 1 s else s);
          hex = (startsWith s1 ''0x'' \<or> startsWith s1 ''0X'');
          z = (if hex then takeWhile isHexDigit (drop 2 s1) else takeWhile isDigit s1)
      in if z = [] then NotANumber
         else toDouble (sign * digitsValue (if hex then 16 else 10) z))"

text \<open>The decimal digits of a natural number, for small numbers and for large ones.\<close>

fun showNat :: "nat \<Rightarrow> string" where
  "showNat n = (if n < 10 then [char_of (48 + n)] else showNat (n div 10) @ [char_of (48 + n mod 10)])"

function decimal :: "int \<Rightarrow> string" where
  "decimal n =
     (if n < 10 then [char_of (48 + nat n)]
      else decimal (n div 10) @ [char_of (48 + nat (n mod 10))])"
  by pat_completeness auto
termination
  by (relation "measure nat") auto

text \<open>
  \<open>Number.prototype.toString\<close> prints the shortest decimal \<open>s * 10^p\<close> that reads back
  as the same double, with \<open>s\<close> of \<open>k\<close> digits and \<open>k\<close> as small as possible; of two such
  decimals the one nearer to the number.  For a safe integer that decimal is the
  integer itself.  \<open>candidate a k\<close> looks among the decimals of \<open>k\<close> digits, where only
  the two next to \<open>a\<close> can read back as \<open>a\<close>.
\<close>

definition candidate :: "int \<Rightarrow> nat \<Rightarrow> (int \<times> nat) option" where
  "candidate a k =
     (let p = length (decimal a) - k;
          lo = a div 10 ^ p;
          hi = lo + 1;
          lo_ok = (toDouble (lo * 10 ^ p) = Whole a);
          hi_ok = (toDouble (hi * 10 ^ p) = Whole a)
      in if lo_ok \<and> hi_ok
         then (if a - lo * 10 ^ p < hi * 10 ^ p - a
                  \<or> (a - lo * 10 ^ p = hi * 10 ^ p - a \<and> even lo)
               then Some (lo, p) else Some (hi, p))
         else if lo_ok then Some (lo, p)
         else if hi_ok then Some (hi, p)
         else None)"

fun shortest :: "int \<Rightarrow> nat \<Rightarrow> nat \<Rightarrow> int \<times> nat" where
  "shortest a k 0 = (a, 0)"
| "shortest a k (Suc more) =
     (case candidate a k of Some sp \<Rightarrow> sp | None \<Rightarrow> shortest a (Suc k) more)"

text \<open>
  The text of a non-negative integral number: its digits followed by zeros up to
  21 digits, and the exponent form \<open>d.ddde+n\<close> from \<open>10^21\<close> on.
\<close>

definition integerToString :: "int \<Rightarrow> string" where
  "integerToString a =
     (if a < 9007199254740992 then decimal a
      else let (s, p) = shortest a 1 (length (decimal a) - 1);
               n = length (decimal s) + p;
               digits = rev (dropWhile (\<lambda>c. c = CHR ''0'') (rev (decimal s)))
           in if n \<le> 21 then digits @ replicate (n - length digits) (CHR ''0'')
              else take 1 digits @ (if length digits = 1 then [] else CHR ''.'' # drop 1 digits)
                   @ ''e+'' @ decimal (int (n - 1)))"

text \<open>The text a template literal \<open>${id}\<close> inserts, and \<open>parseInt\<close> reads.\<close>

fun toString :: "js_value \<Rightarrow> string" where
  "toString JUndefined = ''undefined''"
| "toString JNull = ''null''"
| "toString (JNumber n) =
     (if n < 0 then CHR ''-'' # integerToString (- n) else integerToString n)"
| "toString JInfinity = ''Infinity''"
| "toString JMinusInfinity = ''-Infinity''"
| "toString JNaN = ''NaN''"
| "toString (JString s) = s"

text \<open>\<open>parseInt(v)\<close> converts its argument to a string first.\<close>

definition parseInt :: "js_value \<Rightarrow> js_number" where
  "parseInt v = parseInt_string (toString v)"

text \<open>
  \<open>Math.ceil(total / limit)\<close> is a JavaScript number: division by zero gives
  \<open>NaN\<close> or an infinity rather than an exception.  The quotient is exact for the
  counts of a table, which stay below \<open>2^53\<close>.
\<close>

definition ceil_div :: "int \<Rightarrow> int \<Rightarrow> js_number" where
  "ceil_div n d =
     (if d = 0
      then (if n = 0 then NotANumber else if 0 < n then PlusInfinity else MinusInfinity)
      else Whole (- ((- n) div d)))"

section \<open>JSON\<close>

text \<open>
  The \<open>links\<close> column holds \<open>JSON.stringify(links)\<close> and is read back with
  \<open>JSON.parse\<close>.  A number is kept as the text of its literal.  A \<open>\uXXXX\<close> escape
  above \<open>00FF\<close> denotes a code unit outside the string model and is kept as its
  low byte.
\<close>

datatype json =
    JsonNull | JsonBool bool | JsonNumber string | JsonString string
  | JsonArray "json list" | JsonObject "(string \<times> json) list"

definition hexDigit :: "nat \<Rightarrow> char" where
  "hexDigit n = (if n < 10 then char_of (48 + n) else char_of (87 + n))"

definition escapeChar :: "char \<Rightarrow> string" where
  \<open>escapeChar c =
     (let n = (of_char c :: nat)
      in if c = CHR ''"'' then [CHR 0x5C, CHR ''"'']
         else if n = 92 then [CHR 0x5C, CHR 0x5C]
         else if n = 8 then [CHR 0x5C, CHR ''b'']
         else if n = 12 then [CHR 0x5C, CHR ''f'']
         else if n = 10 then [CHR 0x5C, CHR ''n'']
         else if n = 13 then [CHR 0x5C, CHR ''r'']
         else if n = 9 then [CHR 0x5C, CHR ''t'']
         else if n < 32
         then [CHR 0x5C, CHR ''u'', CHR ''0'', CHR ''0'', hexDigit (n div 16), hexDigit (n mod 16)]
         else [c])\<close>

definition quoteJSONString :: "string \<Rightarrow> string" where
  \<open>quoteJSONString s = [CHR ''"''] @ concat (map escapeChar s) @ [CHR ''"'']\<close>

fun joinWith :: "string \<Rightarrow> string list \<Rightarrow> string" where
  "joinWith sep [] = []"
| "joinWith sep [x] = x"
| "joinWith sep (x # y # ys) = x @ sep @ joinWith sep (y # ys)"

fun JSON_stringify :: "json \<Rightarrow> string" where
  "JSON_stringify JsonNull = ''null''"
| "JSON_stringify (JsonBool b) = (if b then ''true'' else ''false'')"
| "JSON_stringify (JsonNumber t) = t"
| "JSON_stringify (JsonString s) = quoteJSONString s"
| "JSON_stringify (JsonArray xs) = ''['' @ joinWith '','' (map JSON_stringify xs) @ '']''"
| "JSON_stringify (JsonObject kvs) =
     ''{'' @ joinWith '','' (map (\<lambda>kv. quoteJSONString (fst kv) @ '':'' @ JSON_stringify (snd kv)) kvs)
     @ ''}''"

datatype token = TLBracket | TRBracket | TLBrace | TRBrace | TComma | TColon | TValue json

datatype lex_mode =
    Default | InString string | InEscape string | InUnicode string string
  | InNumber string | InWord string

definition isJsonSpace :: "char \<Rightarrow> bool" where
  "isJsonSpace c \<longleftrightarrow> (of_char c :: nat) \<in> {9, 10, 13, 32}"

definition punctuation :: "char \<Rightarrow> token option" where
  "punctuation c =
     (if c = CHR ''['' then Some TLBracket else if c = CHR '']'' then Some TRBracket
      else if c = CHR ''{'' then Some TLBrace else if c = CHR ''}'' then Some TRBrace
      else if c = CHR '','' then Some TComma else if c = CHR '':'' then Some TColon
      else None)"

definition isNumberChar :: "char \<Rightarrow> bool" where
  "isNumberChar c \<longleftrightarrow> isDigit c \<or> c \<in> set ''+-.eE''"

definition isWordChar :: "char \<Rightarrow> bool" where
  "isWordChar c \<longleftrightarrow> (let n = (of_char c :: nat) in 97 \<le> n \<and> n \<le> 122)"

text \<open>The JSON number grammar: \<open>-?(0|[1-9][0-9]*)(\.[0-9]+)?([eE][+-]?[0-9]+)?\<close>.\<close>

definition validNumber :: "string \<Rightarrow> bool" where
  "validNumber t =
     (let s1 = (if startsWith t ''-'' then drop 1 t else t);
          whole = takeWhile isDigit s1;
          r1 = dropWhile isDigit s1;
          hasFraction = startsWith r1 ''.'';
          fraction = takeWhile isDigit (drop 1 r1);
          r2 = (if hasFraction then dropWhile isDigit (drop 1 r1) else r1);
          r3 = drop 1 r2;
          exponent = (if startsWith r3 ''+'' \<or> startsWith r3 ''-'' then drop 1 r3 else r3)
      in whole \<noteq> [] \<and> (length whole = 1 \<or> \<not> startsWith whole ''0'')
         \<and> (hasFraction \<longrightarrow> fraction \<noteq> [])
         \<and> (r2 = [] \<or> ((startsWith r2 ''e'' \<or> startsWith r2 ''E'')
                        \<and> exponent \<noteq> [] \<and> list_all isDigit exponent)))"

definition wordValue :: "string \<Rightarrow> json option" where
  "wordValue t =
     (if t = ''true'' then Some (JsonBool True) else if t = ''false'' then Some (JsonBool False)
      else if t = ''null'' then Some JsonNull else None)"

definition unescape :: "char \<Rightarrow> char option" where
  \<open>unescape c =
     (if c = CHR ''"'' then Some c else if c = CHR 0x5C then Some c
      else if c = CHR ''/'' then Some c else if c = CHR ''b'' then Some (CHR 0x08)
      else if c = CHR ''f'' then Some (CHR 0x0C) else if c = CHR ''n'' then Some (CHR 0x0A)
      else if c = CHR ''r'' then Some (CHR 0x0D) else if c = CHR ''t'' then Some (CHR 0x09)
      else None)\<close>

definition emit :: "token \<Rightarrow> token list option \<Rightarrow> token list option" where
  "emit t rest = map_option ((#) t) rest"

text \<open>
  After a number or a word only white space or a punctuation mark can follow in a
  JSON text.
\<close>

fun tokenize :: "lex_mode \<Rightarrow> string \<Rightarrow> token list option" where
  "tokenize Default [] = Some []"
| "tokenize Default (c # cs) =
     (if isJsonSpace c then tokenize Default cs
      else case punctuation c of
        Some t \<Rightarrow> emit t (tokenize Default cs)
      | None \<Rightarrow>
          if c = CHR 0x22 then tokenize (InString []) cs
          else if isDigit c \<or> c = CHR ''-'' then tokenize (InNumber [c]) cs
          else if isWordChar c then tokenize (InWord [c]) cs
          else None)"
| "tokenize (InString acc) [] = None"
| "tokenize (InString acc) (c # cs) =
     (if c = CHR 0x22 then emit (TValue (JsonString acc)) (tokenize Default cs)
      else if c = CHR 0x5C then tokenize (InEscape acc) cs
      else if (of_char c :: nat) < 32 then None
      else tokenize (InString (acc @ [c])) cs)"
| "tokenize (InEscape acc) [] = None"
| "tokenize (InEscape acc) (c # cs) =
     (if c = CHR ''u'' then tokenize (InUnicode acc []) cs
      else case unescape c of
        Some d \<Rightarrow> tokenize (InString (acc @ [d])) cs
      | None \<Rightarrow> None)"
| "tokenize (InUnicode acc hs) [] = None"
| "tokenize (InUnicode acc hs) (c # cs) =
     (if \<not> isHexDigit c then None
      else if length hs = 3
      then tokenize (InString (acc @ [char_of (digitsValue 16 (hs @ [c]))])) cs
      else tokenize (InUnicode acc (hs @ [c])) cs)"
| "tokenize (InNumber acc) [] = (if validNumber acc then Some [TValue (JsonNumber acc)] else None)"
| "tokenize (InNumber acc) (c # cs) =
     (if isNumberChar c then tokenize (InNumber (acc @ [c])) cs
      else if \<not> validNumber acc then None
      else if isJsonSpace c then emit (TValue (JsonNumber acc)) (tokenize Default cs)
      else case punctuation c of
        Some t \<Rightarrow> emit (TValue (JsonNumber acc)) (emit t (tokenize Default cs))
      | None \<Rightarrow> None)"
| "tokenize (InWord acc) [] = map_option (\<lambda>v. [TValue v]) (wordValue acc)"
| "tokenize (InWord acc) (c # cs) =
     (if isWordChar c then tokenize (InWord (acc @ [c])) cs
      else case wordValue acc of
        None \<Rightarrow> None
      | Some v \<Rightarrow>
          if isJsonSpace c then emit (TValue v) (tokenize Default cs)
          else case punctuation c of
            Some t \<Rightarrow> emit (TValue v) (emit t (tokenize Default cs))
          | None \<Rightarrow> None)"

datatype frame = ArrayFrame "json list" | ObjectFrame "(string \<times> json) list" "string option"

datatype parse_mode =
    WantValue | WantValueOrClose | WantKey | WantKeyOrClose | WantColon | WantCommaOrClose
  | Finished json

text \<open>
  A key that occurs again in an object replaces the value it had.  The members
  stay in the order of their first occurrence.
\<close>

fun setMember :: "string \<Rightarrow> json \<Rightarrow> (string \<times> json) list \<Rightarrow> (string \<times> json) list" where
  "setMember k v [] = [(k, v)]"
| "setMember k v (m # members) =
     (if fst m = k then (k, v) # members else m # setMember k v members)"

text \<open>A completed value goes into the enclosing container, or is the result.\<close>

fun put :: "json \<Rightarrow> frame list \<Rightarrow> (parse_mode \<times> frame list) option" where
  "put v [] = Some (Finished v, [])"
| "put v (ArrayFrame items # stack) = Some (WantCommaOrClose, ArrayFrame (items @ [v]) # stack)"
| "put v (ObjectFrame members (Some k) # stack) =
     Some (WantCommaOrClose, ObjectFrame (setMember k v members) None # stack)"
| "put v (ObjectFrame members None # stack) = None"

fun step :: "parse_mode \<Rightarrow> frame list \<Rightarrow> token \<Rightarrow> (parse_mode \<times> frame list) option" where
  "step (Finished v) stack t = None"
| "step WantColon stack t = (if t = TColon then Some (WantValue, stack) else None)"
| "step WantCommaOrClose stack t =
     (case (t, stack) of
        (TComma, ArrayFrame items # rest) \<Rightarrow> Some (WantValue, stack)
      | (TComma, ObjectFrame members None # rest) \<Rightarrow> Some (WantKey, stack)
      | (TRBracket, ArrayFrame items # rest) \<Rightarrow> put (JsonArray items) rest
      | (TRBrace, ObjectFrame members None # rest) \<Rightarrow> put (JsonObject members) rest
      | _ \<Rightarrow> None)"
| "step WantKey stack t =
     (case (t, stack) of
        (TValue (JsonString k), ObjectFrame members None # rest) \<Rightarrow>
          Some (WantColon, ObjectFrame members (Some k) # rest)
      | _ \<Rightarrow> None)"
| "step WantKeyOrClose stack t =
     (case (t, stack) of
        (TValue (JsonString k), ObjectFrame members None # rest) \<Rightarrow>
          Some (WantColon, ObjectFrame members (Some k) # rest)
      | (TRBrace, ObjectFrame members None # rest) \<Rightarrow> put (JsonObject members) rest
      | _ \<Rightarrow> None)"
| "step WantValue stack t =
     (case t of
        TValue v \<Rightarrow> put v stack
      | TLBracket \<Rightarrow> Some (WantValueOrClose, ArrayFrame [] # stack)
      | TLBrace \<Rightarrow> Some (WantKeyOrClose, ObjectFrame [] None # stack)
      | _ \<Rightarrow> None)"
| "step WantValueOrClose stack t =
     (case t of
        TValue v \<Rightarrow> put v stack
      | TLBracket \<Rightarrow> Some (WantValueOrClose, ArrayFrame [] # stack)
      | TLBrace \<Rightarrow> Some (WantKeyOrClose, ObjectFrame [] None # stack)
      | TRBracket \<Rightarrow> (case stack of ArrayFrame items # rest \<Rightarrow> put (JsonArray items) rest
                      | _ \<Rightarrow> None)
      | _ \<Rightarrow> None)"

fun parseTokens :: "parse_mode \<Rightarrow> frame list \<Rightarrow> token list \<Rightarrow> json option" where
  "parseTokens mode stack [] = (case mode of Finished v \<Rightarrow> Some v | _ \<Rightarrow> None)"
| "parseTokens mode stack (t # ts) =
     (case step mode stack t of
        None \<Rightarrow> None
      | Some (mode', stack') \<Rightarrow> parseTokens mode' stack' ts)"

text \<open>\<open>None\<close> is the \<open>SyntaxError\<close> of \<open>JSON.parse\<close>.\<close>

definition JSON_parse :: "string \<Rightarrow> json option" where
  "JSON_parse text = (case tokenize Default text of None \<Rightarrow> None | Some ts \<Rightarrow> parseTokens WantValue [] ts)"

text \<open>The tokens of a serialised list of strings.\<close>

fun string_tokens :: "string list \<Rightarrow> token list" where
  "string_tokens [] = []"
| "string_tokens [x] = [TValue (JsonString x)]"
| "string_tokens (x # y # ys) = TValue (JsonString x) # TComma # string_tokens (y # ys)"

section \<open>Errors, storage and effects\<close>

text \<open>
  Every failure of the program is a thrown \<open>Error\<close> carrying a message; the run time
  itself throws a \<open>TypeError\<close> when a missing method or an undefined value is called.
\<close>

datatype error = Error string | TypeError string

fun message :: "error \<Rightarrow> string" where
  "message (Error m) = m"
| "message (TypeError m) = m"

text \<open>A text between single quotes, as the messages of the program have it.\<close>

definition quoted :: "string \<Rightarrow> string" where
  "quoted s = [CHR 0x27] @ s @ [CHR 0x27]"

text \<open>Calling \<open>.trim()\<close> on \<open>undefined\<close>.\<close>

definition trim_of_undefined :: error where
  "trim_of_undefined =
     TypeError (''Cannot read properties of undefined (reading '' @ quoted ''trim'' @ '')'')"

text \<open>
  The three tables as the migrations create them.  \<open>tbl_seq\<close> is the largest
  identifier the auto-increment column has handed out.
\<close>

record keyword_row =
  kw_id :: int
  kw_keyword :: string
  kw_created_at :: nat
  kw_updated_at :: nat

record subreddit_row =
  sr_id :: int
  sr_name :: string
  sr_created_at :: nat
  sr_updated_at :: nat

record post_row =
  po_id :: int
  po_title :: string
  po_description :: "string option"
  po_links :: "string option"
  po_created_at :: nat
  po_updated_at :: nat

record 'r table =
  tbl_rows :: "'r list"
  tbl_seq :: int

datatype repo = KeywordRepo | SubredditRepo | PostRepo

datatype repo_method =
    Create | FindById js_number | FindByName string | SearchByName string int
  | SearchByText string int | FindAll | Exists string | ExistsByTitle string
  | Update js_number | Delete js_number

text \<open>
  The state an operation runs in: the tables, the storage's clock, and the record
  of the repository methods entered so far, in order.  The tables are reached
  through repository methods only.
\<close>

record world =
  keywords_table :: "keyword_row table"
  subreddits_table :: "subreddit_row table"
  posts_table :: "post_row table"
  now :: nat
  calls :: "(repo \<times> repo_method) list"

type_synonym 'a io = "world \<Rightarrow> (error + 'a) \<times> world"

definition ret :: "'a \<Rightarrow> 'a io" where
  "ret x = (\<lambda>w. (Inr x, w))"

definition throw :: "error \<Rightarrow> 'a io" where
  "throw e = (\<lambda>w. (Inl e, w))"

definition await :: "'a io \<Rightarrow> ('a \<Rightarrow> 'b io) \<Rightarrow> 'b io" where
  "await m f = (\<lambda>w. case m w of (Inl e, w') \<Rightarrow> (Inl e, w') | (Inr x, w') \<Rightarrow> f x w')"

definition try_catch :: "'a io \<Rightarrow> (error \<Rightarrow> 'a io) \<Rightarrow> 'a io" where
  "try_catch m handler = (\<lambda>w. case m w of (Inl e, w') \<Rightarrow> handler e w' | (Inr x, w') \<Rightarrow> (Inr x, w'))"

definition called :: "repo \<Rightarrow> repo_method \<Rightarrow> unit io" where
  "called r m = (\<lambda>w. (Inr (), w\<lparr>calls := calls w @ [(r, m)]\<rparr>))"

text \<open>
  The connection a repository is constructed with; \<open>None\<close> is \<open>undefined\<close>, and
  \<open>this.db(this.tableName)\<close> on it throws.
\<close>

datatype knex = Knex

definition this_db :: "knex option \<Rightarrow> unit io" where
  "this_db db = (case db of None \<Rightarrow> throw (TypeError ''this.db is not a function'')
                 | Some _ \<Rightarrow> ret ())"

text \<open>The value JavaScript's \<open>x || null\<close> keeps.\<close>

definition or_null_int :: "int option \<Rightarrow> int option" where
  "or_null_int x = (case x of None \<Rightarrow> None | Some n \<Rightarrow> if n = 0 then None else Some n)"

definition or_null_string :: "string option \<Rightarrow> string option" where
  "or_null_string x = (case x of None \<Rightarrow> None | Some s \<Rightarrow> if s = [] then None else Some s)"

definition or_empty :: "string option \<Rightarrow> string" where
  "or_empty x = (case x of None \<Rightarrow> [] | Some s \<Rightarrow> s)"

definition or_else :: "'a option \<Rightarrow> 'a option \<Rightarrow> 'a option" where
  "or_else x y = (case x of None \<Rightarrow> y | Some v \<Rightarrow> Some v)"

text \<open>
  The storage engine (SQLite behind the query builder).  A new row gets an
  identifier above every identifier in the table and above \<open>tbl_seq\<close>.  A
  condition \<open>where({id})\<close> selects the rows whose identifier is the number \<open>id\<close>:
  none when \<open>id\<close> is an infinity or \<open>NaN\<close>.  \<open>LIKE\<close> matches \<open>%\<close> with any text and
  \<open>_\<close> with any character and ignores the case of ASCII letters.  A negative
  \<open>LIMIT\<close> is no limit.  A failed statement is reported with the driver's message;
  the text of the statement, which the query builder puts before that message, is
  left out.
\<close>

definition next_id :: "int list \<Rightarrow> int \<Rightarrow> int" where
  "next_id ids sq = fold max ids sq + 1"

definition asciiLower :: "char \<Rightarrow> char" where
  "asciiLower c = (let n = (of_char c :: nat) in if 65 \<le> n \<and> n \<le> 90 then char_of (n + 32) else c)"

fun sql_like :: "string \<Rightarrow> string \<Rightarrow> bool" where
  "sql_like [] s = (s = [])"
| "sql_like (p # ps) s =
     (if p = CHR ''%''
      then sql_like ps s \<or> (case s of [] \<Rightarrow> False | c # t \<Rightarrow> sql_like (p # ps) t)
      else (case s of [] \<Rightarrow> False
            | c # t \<Rightarrow> (p = CHR ''_'' \<or> asciiLower p = asciiLower c) \<and> sql_like ps t))"

definition sql_limit_offset :: "int \<Rightarrow> int \<Rightarrow> 'a list \<Rightarrow> 'a list" where
  "sql_limit_offset limit offset xs =
     (let ys = drop (nat offset) xs in if limit < 0 then ys else take (nat limit) ys)"

text \<open>
  The query builder refuses a negative offset when the query is built:
  \<open>.offset(value)\<close> throws, so \<open>sql_limit_offset\<close> is reached with an offset that
  is not negative.
\<close>

definition knex_offset :: "int \<Rightarrow> unit io" where
  "knex_offset value =
     (if value < 0 then throw (Error ''A non-negative integer must be provided to offset.'')
      else ret ())"

text \<open>A destructuring default, as in \<open>const { page = 1, limit = 20 } = options\<close>.\<close>

definition default_to :: "'a \<Rightarrow> 'a option \<Rightarrow> 'a" where
  "default_to d x = (case x of None \<Rightarrow> d | Some v \<Rightarrow> v)"

section \<open>Subreddit: model and validation schemas\<close>

record subreddit =
  sub_id :: "int option"
  sub_name :: "string option"
  sub_createdAt :: "nat option"
  sub_updatedAt :: "nat option"

text \<open>
  The object handed to the constructor: a table row (snake-case time stamps), a
  validated input, or a spread instance (camel-case time stamps).  A key that is
  absent or \<open>null\<close> is \<open>None\<close>.
\<close>

record subreddit_data =
  sd_id :: "int option"
  sd_name :: "string option"
  sd_created_at :: "nat option"
  sd_createdAt :: "nat option"
  sd_updated_at :: "nat option"
  sd_updatedAt :: "nat option"

definition new_Subreddit :: "subreddit_data \<Rightarrow> subreddit" where
  "new_Subreddit data =
     \<lparr>sub_id = or_null_int (sd_id data),
      sub_name = or_null_string (sd_name data),
      sub_createdAt = or_else (sd_created_at data) (sd_createdAt data),
      sub_updatedAt = or_else (sd_updated_at data) (sd_updatedAt data)\<rparr>"

definition subreddit_row_data :: "subreddit_row \<Rightarrow> subreddit_data" where
  "subreddit_row_data row =
     \<lparr>sd_id = Some (sr_id row), sd_name = Some (sr_name row),
      sd_created_at = Some (sr_created_at row), sd_createdAt = None,
      sd_updated_at = Some (sr_updated_at row), sd_updatedAt = None\<rparr>"

definition Subreddit_fromDatabase :: "subreddit_row option \<Rightarrow> subreddit option" where
  "Subreddit_fromDatabase row =
     (case row of None \<Rightarrow> None | Some r \<Rightarrow> Some (new_Subreddit (subreddit_row_data r)))"

text \<open>
  The input of \<open>createSubreddit\<close> is an object with the one key \<open>name\<close>, a string
  when present.  The \<open>updateData\<close> of \<open>updateSubreddit\<close> can have the keys \<open>id\<close>, a
  number when present, and \<open>name\<close>, a string when present.  The schemas are
  \<open>name: Joi.string().min(1).max(500)\<close>, required on create and optional on
  update, and \<open>id: Joi.number().integer().required()\<close>; each validation gives the
  message of the first violated rule, or the validated value.
\<close>

record subreddit_input =
  in_name :: "string option"

record subreddit_updateData =
  ud_id :: "js_number option"
  ud_name :: "string option"

record subreddit_patch =
  pv_id :: int
  pv_name :: "string option"

text \<open>
  \<open>Joi.number()\<close> on a number: an infinity, \<open>NaN\<close> and a number outside the safe
  range are refused, in this order.  An integral number then passes \<open>.integer()\<close>.
\<close>

definition joi_number :: "string \<Rightarrow> js_number \<Rightarrow> string + int" where
  "joi_number label v =
     (case v of
        PlusInfinity \<Rightarrow> Inl (label @ '' cannot be infinity'')
      | MinusInfinity \<Rightarrow> Inl (label @ '' cannot be infinity'')
      | NotANumber \<Rightarrow> Inl (label @ '' must be a number'')
      | Whole n \<Rightarrow>
          if 9007199254740991 < \<bar>n\<bar> then Inl (label @ '' must be a safe number'')
          else Inr n)"

definition SubredditValidation_create :: "subreddit_input \<Rightarrow> string + string" where
  \<open>SubredditValidation_create subredditData =
     (case in_name subredditData of
        None \<Rightarrow> Inl ''"name" is required''
      | Some n \<Rightarrow>
          if n = [] then Inl ''name cannot be empty''
          else if 500 < length n then Inl ''name must be less than 500 characters''
          else Inr n)\<close>

text \<open>
  The object validated by an update is \<open>{ id: parseInt(id), ...updateData }\<close>: an
  \<open>id\<close> in \<open>updateData\<close> takes the place of the parsed argument.
\<close>

definition SubredditValidation_update ::
  "js_number \<Rightarrow> subreddit_updateData \<Rightarrow> string + subreddit_patch" where
  \<open>SubredditValidation_update parsed updateData =
     (case joi_number ''"id"'' (default_to parsed (ud_id updateData)) of
        Inl m \<Rightarrow> Inl m
      | Inr i \<Rightarrow>
          (case ud_name updateData of
             None \<Rightarrow> Inr \<lparr>pv_id = i, pv_name = None\<rparr>
           | Some n \<Rightarrow>
               if n = [] then Inl ''"name" is not allowed to be empty''
               else if 500 < length n
               then Inl ''"name" length must be less than or equal to 500 characters long''
               else Inr \<lparr>pv_id = i, pv_name = Some n\<rparr>))\<close>

text \<open>
  Query options: \<open>page\<close> and \<open>limit\<close> are integers when present.  The schema is
  \<open>page: min(1).default(1)\<close>, \<open>limit: min(1).max(100).default(20)\<close>,
  \<open>search: Joi.string().max(50).optional()\<close>, \<open>sortBy\<close> and \<open>sortOrder\<close> from fixed
  sets with defaults.
\<close>

record subreddit_query =
  sq_page :: "int option"
  sq_limit :: "int option"
  sq_search :: "string option"
  sq_sortBy :: "string option"
  sq_sortOrder :: "string option"

definition validate_page_limit :: "int option \<Rightarrow> int option \<Rightarrow> string + (int \<times> int)" where
  \<open>validate_page_limit page limit =
     (case joi_number ''"page"'' (Whole (default_to 1 page)) of
        Inl m \<Rightarrow> Inl m
      | Inr p \<Rightarrow>
          if p < 1 then Inl ''"page" must be greater than or equal to 1''
          else (case joi_number ''"limit"'' (Whole (default_to 20 limit)) of
                  Inl m \<Rightarrow> Inl m
                | Inr l \<Rightarrow>
                    if l < 1 then Inl ''"limit" must be greater than or equal to 1''
                    else if 100 < l then Inl ''"limit" must be less than or equal to 100''
                    else Inr (p, l)))\<close>

definition validate_search :: "nat \<Rightarrow> string option \<Rightarrow> string + string option" where
  \<open>validate_search maxlen search =
     (case search of
        None \<Rightarrow> Inr None
      | Some t \<Rightarrow>
          if t = [] then Inl ''"search" is not allowed to be empty''
          else if maxlen < length t
          then Inl (''"search" length must be less than or equal to '' @ showNat maxlen
                    @ '' characters long'')
          else Inr (Some t))\<close>


record subreddit_page =
  sp_subreddits :: "subreddit list"
  sp_total :: int
  sp_page :: js_number
  sp_limit :: js_number
  sp_pages :: js_number

section \<open>SubredditRepository\<close>

text \<open>
  The statements the repository sends to the \<open>subreddits\<close> table.  The column
  \<open>name\<close> is \<open>NOT NULL\<close> and \<open>UNIQUE\<close>.
\<close>

definition subreddits_first :: "(subreddit_row \<Rightarrow> bool) \<Rightarrow> subreddit_row option io" where
  "subreddits_first cond = (\<lambda>w. (Inr (find cond (tbl_rows (subreddits_table w))), w))"

definition subreddits_where :: "(subreddit_row \<Rightarrow> bool) \<Rightarrow> subreddit_row list io" where
  "subreddits_where cond = (\<lambda>w. (Inr (filter cond (tbl_rows (subreddits_table w))), w))"

definition subreddits_insert :: "string option \<Rightarrow> int io" where
  "subreddits_insert name = (\<lambda>w.
     let t = subreddits_table w
     in case name of
          None \<Rightarrow> (Inl (Error ''SQLITE_CONSTRAINT: NOT NULL constraint failed: subreddits.name''), w)
        | Some n \<Rightarrow>
            if n \<in> sr_name ` set (tbl_rows t)
            then (Inl (Error ''SQLITE_CONSTRAINT: UNIQUE constraint failed: subreddits.name''), w)
            else let i = next_id (map sr_id (tbl_rows t)) (tbl_seq t);
                     row = \<lparr>sr_id = i, sr_name = n, sr_created_at = now w, sr_updated_at = now w\<rparr>
                 in (Inr i, w\<lparr>subreddits_table := \<lparr>tbl_rows = tbl_rows t @ [row], tbl_seq = i\<rparr>\<rparr>))"

definition subreddits_update :: "js_number \<Rightarrow> string option \<Rightarrow> nat \<Rightarrow> int io" where
  "subreddits_update ident name updated_at = (\<lambda>w.
     let t = subreddits_table w;
         hit = filter (\<lambda>r. Whole (sr_id r) = ident) (tbl_rows t)
     in if hit = [] then (Inr 0, w)
        else case name of
          None \<Rightarrow> (Inl (Error ''SQLITE_CONSTRAINT: NOT NULL constraint failed: subreddits.name''), w)
        | Some n \<Rightarrow>
            if (\<exists>r \<in> set (tbl_rows t). Whole (sr_id r) \<noteq> ident \<and> sr_name r = n) \<or> 1 < length hit
            then (Inl (Error ''SQLITE_CONSTRAINT: UNIQUE constraint failed: subreddits.name''), w)
            else (Inr (int (length hit)),
                  w\<lparr>subreddits_table := t\<lparr>tbl_rows :=
                       map (\<lambda>r. if Whole (sr_id r) = ident
                                 then r\<lparr>sr_name := n, sr_updated_at := updated_at\<rparr> else r)
                           (tbl_rows t)\<rparr>\<rparr>))"

definition subreddits_del :: "js_number \<Rightarrow> int io" where
  "subreddits_del ident = (\<lambda>w.
     let t = subreddits_table w
     in (Inr (int (length (filter (\<lambda>r. Whole (sr_id r) = ident) (tbl_rows t)))),
         w\<lparr>subreddits_table :=
             t\<lparr>tbl_rows := filter (\<lambda>r. Whole (sr_id r) \<noteq> ident) (tbl_rows t)\<rparr>\<rparr>))"

definition SubredditRepository_findById :: "knex option \<Rightarrow> js_number \<Rightarrow> subreddit option io" where
  "SubredditRepository_findById db ident =
     await (called SubredditRepo (FindById ident)) (\<lambda>_.
     try_catch
       (await (this_db db) (\<lambda>_.
        await (subreddits_first (\<lambda>r. Whole (sr_id r) = ident)) (\<lambda>row.
        ret (Subreddit_fromDatabase row))))
       (\<lambda>error. throw (Error (''Failed to find subreddit by ID: '' @ message error))))"

definition SubredditRepository_create :: "knex option \<Rightarrow> subreddit_data \<Rightarrow> subreddit option io" where
  "SubredditRepository_create db subredditData =
     await (called SubredditRepo Create) (\<lambda>_.
     try_catch
       (let subreddit = new_Subreddit subredditData
        in await (this_db db) (\<lambda>_.
           await (subreddits_insert (sub_name subreddit)) (\<lambda>ident.
           SubredditRepository_findById db (Whole ident))))
       (\<lambda>error. throw (Error (''Failed to create subreddit: '' @ message error))))"

definition SubredditRepository_findByName :: "knex option \<Rightarrow> string \<Rightarrow> subreddit option io" where
  "SubredditRepository_findByName db name =
     await (called SubredditRepo (FindByName name)) (\<lambda>_.
     try_catch
       (await (this_db db) (\<lambda>_.
        await (subreddits_first (\<lambda>r. sr_name r = name)) (\<lambda>row.
        ret (Subreddit_fromDatabase row))))
       (\<lambda>error. throw (Error (''Failed to find subreddit by name: '' @ message error))))"

definition SubredditRepository_searchByName :: "knex option \<Rightarrow> string \<Rightarrow> int \<Rightarrow> subreddit list io" where
  "SubredditRepository_searchByName db searchText limit =
     await (called SubredditRepo (SearchByName searchText limit)) (\<lambda>_.
     try_catch
       (let searchPattern = ''%'' @ searchText @ ''%''
        in await (this_db db) (\<lambda>_.
           await (subreddits_where (\<lambda>r. sql_like searchPattern (sr_name r))) (\<lambda>matching.
           let rows = sql_limit_offset limit 0 (sort_key sr_name matching)
           in ret (map (\<lambda>row. new_Subreddit (subreddit_row_data row)) rows))))
       (\<lambda>error. throw (Error (''Failed to search subreddits: '' @ message error))))"

text \<open>
  The \<open>where\<close> clause \<open>findAll\<close> puts on both the row query and the count query:
  \<open>if (search) { ... where('name', 'like', `%${search}%`) }\<close>.
\<close>

definition subreddits_matching :: "string option \<Rightarrow> subreddit_row \<Rightarrow> bool" where
  "subreddits_matching search r \<longleftrightarrow>
     (case search of None \<Rightarrow> True | Some t \<Rightarrow> t = [] \<or> sql_like (''%'' @ t @ ''%'') (sr_name r))"

definition SubredditRepository_findAll :: "knex option \<Rightarrow> subreddit_query \<Rightarrow> subreddit_page io" where
  "SubredditRepository_findAll db options =
     await (called SubredditRepo FindAll) (\<lambda>_.
     try_catch
       (let page = default_to 1 (sq_page options);
            limit = default_to 20 (sq_limit options);
            search = sq_search options;
            cond = subreddits_matching search
        in await (this_db db) (\<lambda>_.
           await (subreddits_where cond) (\<lambda>counted.
           let total = int (length counted);
               offset = (page - 1) * limit
           in await (knex_offset offset) (\<lambda>_.
              await (subreddits_where cond) (\<lambda>matching.
              let rows = sql_limit_offset limit offset (sort_key sr_name matching);
                  subreddits = map (\<lambda>row. new_Subreddit (subreddit_row_data row)) rows
              in ret \<lparr>sp_subreddits = subreddits, sp_total = total,
                      sp_page = parseInt (JNumber page), sp_limit = parseInt (JNumber limit),
                      sp_pages = ceil_div total limit\<rparr>)))))
       (\<lambda>error. throw (Error (''Failed to find subreddits: '' @ message error))))"

definition SubredditRepository_exists :: "knex option \<Rightarrow> string \<Rightarrow> bool io" where
  "SubredditRepository_exists db name =
     await (called SubredditRepo (Exists name)) (\<lambda>_.
     try_catch
       (await (this_db db) (\<lambda>_.
        await (subreddits_first (\<lambda>r. sr_name r = name)) (\<lambda>result.
        ret (result \<noteq> None))))
       (\<lambda>error. throw (Error (''Failed to check subreddit existence: '' @ message error))))"

text \<open>
  \<open>new Subreddit({...existingSubreddit, ...updateData})\<close>: the keys of the patch
  (\<open>id\<close>, and \<open>name\<close> when present) override those of the instance.
\<close>

definition subreddit_merge :: "subreddit \<Rightarrow> subreddit_patch \<Rightarrow> subreddit_data" where
  "subreddit_merge existing updateData =
     \<lparr>sd_id = Some (pv_id updateData),
      sd_name = (case pv_name updateData of None \<Rightarrow> sub_name existing | Some n \<Rightarrow> Some n),
      sd_created_at = None, sd_createdAt = sub_createdAt existing,
      sd_updated_at = None, sd_updatedAt = sub_updatedAt existing\<rparr>"

definition SubredditRepository_update ::
  "knex option \<Rightarrow> js_number \<Rightarrow> subreddit_patch \<Rightarrow> subreddit option io" where
  "SubredditRepository_update db ident updateData =
     await (called SubredditRepo (Update ident)) (\<lambda>_.
     try_catch
       (await (SubredditRepository_findById db ident) (\<lambda>existingSubreddit.
        case existingSubreddit of
          None \<Rightarrow> ret None
        | Some existing \<Rightarrow>
            let updatedSubreddit = new_Subreddit (subreddit_merge existing updateData)
            in await (this_db db) (\<lambda>_. (\<lambda>w.
                 await (subreddits_update ident (sub_name updatedSubreddit) (now w))
                   (\<lambda>updatedCount.
                      if updatedCount = 0 then ret None
                      else SubredditRepository_findById db ident) w))))
       (\<lambda>error. throw (Error (''Failed to update subreddit: '' @ message error))))"

definition SubredditRepository_delete :: "knex option \<Rightarrow> js_number \<Rightarrow> bool io" where
  "SubredditRepository_delete db ident =
     await (called SubredditRepo (Delete ident)) (\<lambda>_.
     try_catch
       (await (this_db db) (\<lambda>_.
        await (subreddits_del ident) (\<lambda>deletedCount.
        ret (0 < deletedCount))))
       (\<lambda>error. throw (Error (''Failed to delete subreddit: '' @ message error))))"

section \<open>SubredditService\<close>

text \<open>
  The service is constructed with the module-level connection:
  \<open>new SubredditRepository(db)\<close>.  Every method body is wrapped in
  \<open>try { ... } catch (error) { console...; throw error; }\<close>; the console output is
  not modelled.
\<close>

definition SubredditService_db :: "knex option" where
  "SubredditService_db = Some Knex"

definition createSubreddit :: "subreddit_input \<Rightarrow> subreddit option io" where
  "createSubreddit subredditData =
     try_catch
       (case SubredditValidation_create subredditData of
          Inl detail \<Rightarrow> throw (Error (''Validation error: '' @ detail))
        | Inr name \<Rightarrow>
            let normalizedName = normalizeName name
            in await (SubredditRepository_exists SubredditService_db normalizedName)
                 (\<lambda>existingName.
                    if existingName
                    then throw (Error (''Subreddit '' @ normalizedName @ '' already exists''))
                    else SubredditRepository_create SubredditService_db
                           \<lparr>sd_id = None, sd_name = Some normalizedName,
                            sd_created_at = None, sd_createdAt = None,
                            sd_updated_at = None, sd_updatedAt = None\<rparr>))
       (\<lambda>error. throw error)"


definition getSubredditById :: "js_value \<Rightarrow> subreddit io" where
  "getSubredditById ident =
     try_catch
       (if \<not> truthy ident \<or> parseInt ident = NotANumber
        then throw (Error ''Invalid subreddit ID'')
        else await (SubredditRepository_findById SubredditService_db (parseInt ident))
               (\<lambda>subreddit.
                  case subreddit of
                    None \<Rightarrow> throw (Error (''Subreddit with ID '' @ toString ident @ '' not found''))
                  | Some found \<Rightarrow> ret found))
       (\<lambda>error. throw error)"

text \<open>\<open>name\<close> is a string here; \<open>None\<close> stands for a missing argument.\<close>

definition getSubredditByName :: "string option \<Rightarrow> subreddit io" where
  \<open>getSubredditByName name =
     try_catch
       (case name of
          None \<Rightarrow> throw trim_of_undefined
        | Some n \<Rightarrow>
            let normalizedName = normalizeName n
            in if normalizedName = [] then throw (Error ''Invalid subreddit name'')
               else await (SubredditRepository_findByName SubredditService_db normalizedName)
                      (\<lambda>existingSubreddit.
                         case existingSubreddit of
                           None \<Rightarrow> throw (Error (''Subreddit with name '' @ quoted n
                                                 @ '' not found''))
                         | Some found \<Rightarrow> ret found))
       (\<lambda>error. throw error)\<close>

definition updateSubreddit :: "js_value \<Rightarrow> subreddit_updateData \<Rightarrow> subreddit option io" where
  "updateSubreddit ident updateData =
     try_catch
       (case SubredditValidation_update (parseInt ident) updateData of
          Inl detail \<Rightarrow> throw (Error (''Validation error: '' @ detail))
        | Inr v \<Rightarrow>
            await (SubredditRepository_findById SubredditService_db (parseInt ident))
              (\<lambda>existingSubreddit.
                 case existingSubreddit of
                   None \<Rightarrow> throw (Error (''Subreddit with ID '' @ toString ident @ '' not found.''))
                 | Some existing \<Rightarrow>
                     (case pv_name v of
                        Some name \<Rightarrow>
                          if name \<noteq> [] \<and> Some name \<noteq> sub_name existing
                          then let normalizedName = trim name
                               in await (SubredditRepository_exists SubredditService_db normalizedName)
                                    (\<lambda>duplicate.
                                       if duplicate
                                       then throw (Error (''Subreddit '' @ normalizedName
                                                          @ '' already exists''))
                                       else SubredditRepository_update SubredditService_db
                                              (parseInt ident)
                                              (v\<lparr>pv_name := Some normalizedName\<rparr>))
                          else SubredditRepository_update SubredditService_db (parseInt ident) v
                      | None \<Rightarrow>
                          SubredditRepository_update SubredditService_db (parseInt ident) v)))
       (\<lambda>error. throw error)"

definition deleteSubreddit :: "js_value \<Rightarrow> bool io" where
  "deleteSubreddit ident =
     try_catch
       (if \<not> truthy ident \<or> parseInt ident = NotANumber
        then throw (Error ''Invalid subreddit id'')
        else await (SubredditRepository_findById SubredditService_db (parseInt ident))
               (\<lambda>existingSubreddit.
                  case existingSubreddit of
                    None \<Rightarrow> throw (Error (''Subreddit with ID '' @ toString ident @ '' not found''))
                  | Some existing \<Rightarrow>
                      await (SubredditRepository_delete SubredditService_db (parseInt ident))
                        (\<lambda>deleted.
                           if deleted then ret True
                           else throw (Error ''Failed to delete subreddit''))))
       (\<lambda>error. throw error)"

text \<open>
  \<open>searchText\<close> is a string when present; \<open>limit\<close> defaults to 50.  The text is
  normalised before it is checked, so a missing text fails at \<open>.trim()\<close>.  The
  result of the repository is an array, which is truthy, so the later check
  \<open>if (!result)\<close> never throws.
\<close>

definition searchSubreddits :: "string option \<Rightarrow> int option \<Rightarrow> subreddit list io" where
  \<open>searchSubreddits searchText limit =
     try_catch
       (case searchText of
          None \<Rightarrow> throw trim_of_undefined
        | Some text \<Rightarrow>
            let normalizedText = replace (toLowerCase (trim text)) ''r/'' []
            in if text = [] \<or> length (trim text) = 0
               then throw (Error ''Search text is required'')
               else SubredditRepository_searchByName SubredditService_db normalizedText
                      (case limit of None \<Rightarrow> 50 | Some l \<Rightarrow> l))
       (\<lambda>error. throw error)\<close>

section \<open>Keyword: model and validation schemas\<close>

record keyword =
  key_id :: "int option"
  key_keyword :: string
  key_createdAt :: "nat option"
  key_updatedAt :: "nat option"

record keyword_data =
  kd_id :: "int option"
  kd_keyword :: "string option"
  kd_created_at :: "nat option"
  kd_createdAt :: "nat option"
  kd_updated_at :: "nat option"
  kd_updatedAt :: "nat option"

definition new_Keyword :: "keyword_data \<Rightarrow> keyword" where
  "new_Keyword data =
     \<lparr>key_id = or_null_int (kd_id data),
      key_keyword = or_empty (kd_keyword data),
      key_createdAt = or_else (kd_created_at data) (kd_createdAt data),
      key_updatedAt = or_else (kd_updated_at data) (kd_updatedAt data)\<rparr>"

definition keyword_row_data :: "keyword_row \<Rightarrow> keyword_data" where
  "keyword_row_data row =
     \<lparr>kd_id = Some (kw_id row), kd_keyword = Some (kw_keyword row),
      kd_created_at = Some (kw_created_at row), kd_createdAt = None,
      kd_updated_at = Some (kw_updated_at row), kd_updatedAt = None\<rparr>"

definition Keyword_fromDatabase :: "keyword_row option \<Rightarrow> keyword option" where
  "Keyword_fromDatabase row =
     (case row of None \<Rightarrow> None | Some r \<Rightarrow> Some (new_Keyword (keyword_row_data r)))"

record keyword_input =
  in_keyword :: "string option"

definition KeywordValidation_create :: "keyword_input \<Rightarrow> string + string" where
  \<open>KeywordValidation_create keywordData =
     (case in_keyword keywordData of
        None \<Rightarrow> Inl ''"keyword" is required''
      | Some k \<Rightarrow>
          if k = [] then Inl ''Keyword cannot be empty''
          else if 500 < length k then Inl ''Keyword must be less than 500 characters''
          else Inr k)\<close>

record keyword_query =
  kq_page :: "int option"
  kq_limit :: "int option"
  kq_search :: "string option"
  kq_sortBy :: "string option"
  kq_sortOrder :: "string option"

definition KeywordValidation_query :: "keyword_query \<Rightarrow> string + keyword_query" where
  \<open>KeywordValidation_query options =
     (case validate_page_limit (kq_page options) (kq_limit options) of
        Inl m \<Rightarrow> Inl m
      | Inr (p, l) \<Rightarrow>
          (case validate_search 255 (kq_search options) of
             Inl m \<Rightarrow> Inl m
           | Inr search \<Rightarrow>
               let sortBy = (case kq_sortBy options of None \<Rightarrow> ''created_at'' | Some v \<Rightarrow> v);
                   sortOrder = (case kq_sortOrder options of None \<Rightarrow> ''desc'' | Some v \<Rightarrow> v)
               in if sortBy \<notin> set [''keyword'', ''created_at'', ''updated_at'']
                  then Inl ''"sortBy" must be one of [keyword, created_at, updated_at]''
                  else if sortOrder \<notin> set [''asc'', ''desc'']
                  then Inl ''"sortOrder" must be one of [asc, desc]''
                  else Inr \<lparr>kq_page = Some p, kq_limit = Some l, kq_search = search,
                           kq_sortBy = Some sortBy, kq_sortOrder = Some sortOrder\<rparr>))\<close>

section \<open>KeywordRepository\<close>

text \<open>
  The class defines \<open>constructor\<close>, \<open>create\<close>, \<open>findById\<close>, \<open>update\<close> and \<open>delete\<close>,
  and no other method; of these \<open>create\<close> and \<open>findById\<close> are used below.  The column
  \<open>keyword\<close> is \<open>NOT NULL\<close> and \<open>UNIQUE\<close>; the model's \<open>keyword\<close> is never \<open>null\<close>.
\<close>

definition keywords_first :: "(keyword_row \<Rightarrow> bool) \<Rightarrow> keyword_row option io" where
  "keywords_first cond = (\<lambda>w. (Inr (find cond (tbl_rows (keywords_table w))), w))"

definition keywords_insert :: "string \<Rightarrow> int io" where
  "keywords_insert k = (\<lambda>w.
     let t = keywords_table w
     in if k \<in> kw_keyword ` set (tbl_rows t)
        then (Inl (Error ''SQLITE_CONSTRAINT: UNIQUE constraint failed: keywords.keyword''), w)
        else let i = next_id (map kw_id (tbl_rows t)) (tbl_seq t);
                 row = \<lparr>kw_id = i, kw_keyword = k, kw_created_at = now w, kw_updated_at = now w\<rparr>
             in (Inr i, w\<lparr>keywords_table := \<lparr>tbl_rows = tbl_rows t @ [row], tbl_seq = i\<rparr>\<rparr>))"

definition KeywordRepository_findById :: "knex option \<Rightarrow> js_number \<Rightarrow> keyword option io" where
  "KeywordRepository_findById db ident =
     await (called KeywordRepo (FindById ident)) (\<lambda>_.
     try_catch
       (await (this_db db) (\<lambda>_.
        await (keywords_first (\<lambda>r. Whole (kw_id r) = ident)) (\<lambda>row.
        ret (Keyword_fromDatabase row))))
       (\<lambda>error. throw (Error (''Failed to find keyword by ID: '' @ message error))))"

definition KeywordRepository_create :: "knex option \<Rightarrow> keyword_data \<Rightarrow> keyword option io" where
  "KeywordRepository_create db keywordData =
     await (called KeywordRepo Create) (\<lambda>_.
     try_catch
       (let keyword = new_Keyword keywordData
        in await (this_db db) (\<lambda>_.
           await (keywords_insert (key_keyword keyword)) (\<lambda>ident.
           KeywordRepository_findById db (Whole ident))))
       (\<lambda>error. throw (Error (''Failed to create keyword: '' @ message error))))"

section \<open>KeywordService\<close>

text \<open>
  The constructor is \<open>new KeywordRepository()\<close>: the repository's \<open>db\<close> is
  \<open>undefined\<close>.  The service calls \<open>exists\<close>, \<open>findAll\<close>, \<open>searchByText\<close> and
  \<open>getStatistics\<close> on the repository, which has no such methods; calling the
  missing property throws a \<open>TypeError\<close>.

  The file \<open>KeywordService.js\<close> itself does not parse: in \<open>deleteKeyword\<close>, line 151
  is \<^verbatim>\<open>throw new Error('Failed to delete keyword'):\<close> with a colon for the
  semicolon, so that loading the module fails and no method of the service can
  run.  The definitions below are the methods \<open>createKeyword\<close>, \<open>getAllKeywords\<close>,
  \<open>getKeywordById\<close>, \<open>searchKeywords\<close> and \<open>getStatistics\<close> as their own text reads,
  which is what they do once that colon is corrected.  \<open>deleteKeyword\<close>, whose
  text is the broken one, and \<open>updateKeyword\<close> are not part of this development.
\<close>

definition KeywordService_db :: "knex option" where
  "KeywordService_db = None"

definition missing_method :: "string \<Rightarrow> 'a io" where
  "missing_method name = throw (TypeError (name @ '' is not a function''))"

definition createKeyword :: "keyword_input \<Rightarrow> keyword option io" where
  "createKeyword keywordData =
     try_catch
       (case KeywordValidation_create keywordData of
          Inl detail \<Rightarrow> throw (Error (''Validation error: '' @ detail))
        | Inr k \<Rightarrow>
            let normalizedKeyword = trim k
            in await (missing_method ''this.keywordRepository.exists'')
                 (\<lambda>existingKeyword.
                    if existingKeyword
                    then throw (Error (''Keyword '' @ quoted normalizedKeyword @ '' already exists''))
                    else KeywordRepository_create KeywordService_db
                           \<lparr>kd_id = None, kd_keyword = Some normalizedKeyword,
                            kd_created_at = None, kd_createdAt = None,
                            kd_updated_at = None, kd_updatedAt = None\<rparr>))
       (\<lambda>error. throw error)"

definition getAllKeywords :: "keyword_query \<Rightarrow> 'a io" where
  "getAllKeywords options =
     try_catch
       (case KeywordValidation_query options of
          Inl detail \<Rightarrow> throw (Error (''Query validation error: '' @ detail))
        | Inr v \<Rightarrow> missing_method ''this.keywordRepository.findAll'')
       (\<lambda>error. throw error)"

definition getKeywordById :: "js_value \<Rightarrow> keyword io" where
  "getKeywordById ident =
     try_catch
       (if \<not> truthy ident \<or> parseInt ident = NotANumber
        then throw (Error ''Invalid keyword ID'')
        else await (KeywordRepository_findById KeywordService_db (parseInt ident))
               (\<lambda>keyword.
                  case keyword of
                    None \<Rightarrow> throw (Error (''Keyword with ID '' @ toString ident @ '' not found''))
                  | Some found \<Rightarrow> ret found))
       (\<lambda>error. throw error)"

definition searchKeywords :: "string option \<Rightarrow> int option \<Rightarrow> 'a io" where
  "searchKeywords searchText limit =
     try_catch
       (case searchText of
          None \<Rightarrow> throw (Error ''Search text is required'')
        | Some text \<Rightarrow>
            if text = [] \<or> length (trim text) = 0
            then throw (Error ''Search text is required'')
            else missing_method ''this.keywordRepository.searchByText'')
       (\<lambda>error. throw error)"

definition KeywordService_getStatistics :: "'a io" where
  "KeywordService_getStatistics =
     try_catch (missing_method ''this.keywordRepository.getStatistics'') (\<lambda>error. throw error)"

section \<open>Post: model and validation schemas\<close>

record post =
  post_id :: "int option"
  post_title :: string
  post_description :: "string option"
  post_links :: json
  post_createdAt :: "nat option"
  post_updatedAt :: "nat option"

text \<open>
  The constructor's \<open>data.links\<close> is absent (\<open>None\<close>), \<open>null\<close>, the text of the
  \<open>links\<close> column, or an array.
\<close>

record post_data =
  pd_id :: "int option"
  pd_title :: "string option"
  pd_description :: "string option"
  pd_links :: "json option"
  pd_created_at :: "nat option"
  pd_createdAt :: "nat option"
  pd_updated_at :: "nat option"
  pd_updatedAt :: "nat option"

fun splitOn :: "char \<Rightarrow> string \<Rightarrow> string list" where
  "splitOn sep [] = [[]]"
| "splitOn sep (c # cs) =
     (if c = sep then [] # splitOn sep cs
      else case splitOn sep cs of [] \<Rightarrow> [[c]] | x # xs \<Rightarrow> (c # x) # xs)"

definition parseLinks :: "json option \<Rightarrow> json" where
  "parseLinks linksData =
     (case linksData of
        Some (JsonString s) \<Rightarrow>
          if s = [] then JsonArray []
          else (case JSON_parse s of
                  Some parsed \<Rightarrow> parsed
                | None \<Rightarrow>
                    JsonArray (map JsonString
                      (filter (\<lambda>link. link \<noteq> []) (map trim (splitOn (CHR '','') s)))))
      | _ \<Rightarrow> JsonArray [])"

definition new_Post :: "post_data \<Rightarrow> post" where
  "new_Post data =
     \<lparr>post_id = or_null_int (pd_id data),
      post_title = or_empty (pd_title data),
      post_description = or_null_string (pd_description data),
      post_links = (case pd_links data of
                      Some (JsonArray xs) \<Rightarrow> JsonArray xs
                    | other \<Rightarrow> parseLinks other),
      post_createdAt = or_else (pd_created_at data) (pd_createdAt data),
      post_updatedAt = or_else (pd_updated_at data) (pd_updatedAt data)\<rparr>"

definition post_row_data :: "post_row \<Rightarrow> post_data" where
  "post_row_data row =
     \<lparr>pd_id = Some (po_id row), pd_title = Some (po_title row),
      pd_description = po_description row,
      pd_links = (case po_links row of None \<Rightarrow> Some JsonNull | Some s \<Rightarrow> Some (JsonString s)),
      pd_created_at = Some (po_created_at row), pd_createdAt = None,
      pd_updated_at = Some (po_updated_at row), pd_updatedAt = None\<rparr>"

definition Post_fromDatabase :: "post_row option \<Rightarrow> post option" where
  "Post_fromDatabase row =
     (case row of None \<Rightarrow> None | Some r \<Rightarrow> Some (new_Post (post_row_data r)))"

text \<open>
  The input of \<open>createPost\<close> and the \<open>updateData\<close> of \<open>updatePost\<close>: \<open>title\<close> a string,
  \<open>description\<close> absent (\<open>None\<close>), \<open>null\<close> (\<open>Some None\<close>) or a string, \<open>links\<close> an
  array of strings, each key when present; \<open>updateData\<close> can have the key \<open>id\<close> as
  well, a number when present.  The schemas are
  \<open>title: Joi.string().min(1).max(500)\<close>,
  \<open>description: Joi.string().max(10000).optional().allow(null, '')\<close> and
  \<open>links: Joi.array().items(Joi.string().uri())\<close>, with the default \<open>[]\<close> on create.
  The test \<open>.uri()\<close> of the validation library is the parameter \<open>isUri\<close>.  The
  create schema replaces the message of a failed \<open>.uri()\<close> by
  \<open>Invalid URL format for link\<close>; the update schema keeps the library's message.
\<close>

record post_input =
  pin_title :: "string option"
  pin_description :: "string option option"
  pin_links :: "string list option"

record post_updateData =
  pud_id :: "js_number option"
  pud_title :: "string option"
  pud_description :: "string option option"
  pud_links :: "string list option"

record post_value =
  pc_title :: string
  pc_description :: "string option option"
  pc_links :: "string list"

record post_patch =
  pp_id :: int
  pp_title :: "string option"
  pp_description :: "string option option"
  pp_links :: "string list option"

definition validate_description :: "string option option \<Rightarrow> string option" where
  \<open>validate_description description =
     (case description of
        Some (Some d) \<Rightarrow>
          if 10000 < length d
          then Some ''"description" length must be less than or equal to 10000 characters long''
          else None
      | _ \<Rightarrow> None)\<close>

fun validate_links ::
  "(string \<Rightarrow> bool) \<Rightarrow> string option \<Rightarrow> nat \<Rightarrow> string list \<Rightarrow> string option" where
  \<open>validate_links isUri uriMessage i [] = None\<close>
| \<open>validate_links isUri uriMessage i (l # ls) =
     (if l = [] then Some (''"links['' @ showNat i @ '']" is not allowed to be empty'')
      else if \<not> isUri l
      then Some (case uriMessage of
                   Some m \<Rightarrow> m
                 | None \<Rightarrow> ''"links['' @ showNat i @ '']" must be a valid uri'')
      else validate_links isUri uriMessage (Suc i) ls)\<close>

definition PostValidation_create :: "(string \<Rightarrow> bool) \<Rightarrow> post_input \<Rightarrow> string + post_value" where
  \<open>PostValidation_create isUri postData =
     (case pin_title postData of
        None \<Rightarrow> Inl ''"title" is required''
      | Some t \<Rightarrow>
          if t = [] then Inl ''Title cannot be empty''
          else if 500 < length t then Inl ''Title must be less than 500 characters''
          else (case validate_description (pin_description postData) of
                  Some m \<Rightarrow> Inl m
                | None \<Rightarrow>
                    let links = (case pin_links postData of None \<Rightarrow> [] | Some ls \<Rightarrow> ls)
                    in (case validate_links isUri (Some ''Invalid URL format for link'') 0 links of
                          Some m \<Rightarrow> Inl m
                        | None \<Rightarrow> Inr \<lparr>pc_title = t, pc_description = pin_description postData,
                                       pc_links = links\<rparr>)))\<close>

definition PostValidation_update ::
  "(string \<Rightarrow> bool) \<Rightarrow> js_number \<Rightarrow> post_updateData \<Rightarrow> string + post_patch" where
  \<open>PostValidation_update isUri parsed updateData =
     (case joi_number ''"id"'' (default_to parsed (pud_id updateData)) of
        Inl m \<Rightarrow> Inl m
      | Inr i \<Rightarrow>
          (case (case pud_title updateData of
                   None \<Rightarrow> None
                 | Some t \<Rightarrow>
                     if t = [] then Some ''"title" is not allowed to be empty''
                     else if 500 < length t
                     then Some ''"title" length must be less than or equal to 500 characters long''
                     else None) of
             Some m \<Rightarrow> Inl m
           | None \<Rightarrow>
               (case validate_description (pud_description updateData) of
                  Some m \<Rightarrow> Inl m
                | None \<Rightarrow>
                    (case validate_links isUri None 0 (default_to [] (pud_links updateData)) of
                       Some m \<Rightarrow> Inl m
                     | None \<Rightarrow> Inr \<lparr>pp_id = i, pp_title = pud_title updateData,
                                    pp_description = pud_description updateData,
                                    pp_links = pud_links updateData\<rparr>))))\<close>

record post_query =
  pq_page :: "int option"
  pq_limit :: "int option"
  pq_search :: "string option"
  pq_hasLinks :: "bool option"

definition PostValidation_query :: "post_query \<Rightarrow> string + post_query" where
  "PostValidation_query options =
     (case validate_page_limit (pq_page options) (pq_limit options) of
        Inl m \<Rightarrow> Inl m
      | Inr (p, l) \<Rightarrow>
          (case validate_search 255 (pq_search options) of
             Inl m \<Rightarrow> Inl m
           | Inr search \<Rightarrow> Inr \<lparr>pq_page = Some p, pq_limit = Some l, pq_search = search,
                                pq_hasLinks = pq_hasLinks options\<rparr>))"

record post_page =
  pg_posts :: "post list"
  pg_total :: int
  pg_page :: js_number
  pg_limit :: js_number
  pg_pages :: js_number

section \<open>PostRepository\<close>

text \<open>
  The \<open>posts\<close> table: \<open>title\<close> is \<open>NOT NULL\<close> (the model's title is never \<open>null\<close>),
  \<open>description\<close> and \<open>links\<close> are nullable texts, and no column is unique.  A
  comparison with a \<open>NULL\<close> column selects no row.  The methods \<open>findByTitle\<close>,
  \<open>findPostsWithLinks\<close> and \<open>getStatistics\<close> are not part of this development.
\<close>

definition posts_first :: "(post_row \<Rightarrow> bool) \<Rightarrow> post_row option io" where
  "posts_first cond = (\<lambda>w. (Inr (find cond (tbl_rows (posts_table w))), w))"

definition posts_where :: "(post_row \<Rightarrow> bool) \<Rightarrow> post_row list io" where
  "posts_where cond = (\<lambda>w. (Inr (filter cond (tbl_rows (posts_table w))), w))"

definition posts_insert :: "string \<Rightarrow> string option \<Rightarrow> string \<Rightarrow> int io" where
  "posts_insert title description links = (\<lambda>w.
     let t = posts_table w;
         i = next_id (map po_id (tbl_rows t)) (tbl_seq t);
         row = \<lparr>po_id = i, po_title = title, po_description = description,
                po_links = Some links, po_created_at = now w, po_updated_at = now w\<rparr>
     in (Inr i, w\<lparr>posts_table := \<lparr>tbl_rows = tbl_rows t @ [row], tbl_seq = i\<rparr>\<rparr>))"

definition posts_update ::
  "js_number \<Rightarrow> string \<Rightarrow> string option \<Rightarrow> string \<Rightarrow> nat \<Rightarrow> int io" where
  "posts_update ident title description links updated_at = (\<lambda>w.
     let t = posts_table w
     in (Inr (int (length (filter (\<lambda>r. Whole (po_id r) = ident) (tbl_rows t)))),
         w\<lparr>posts_table := t\<lparr>tbl_rows :=
              map (\<lambda>r. if Whole (po_id r) = ident
                        then r\<lparr>po_title := title, po_description := description,
                               po_links := Some links, po_updated_at := updated_at\<rparr>
                        else r)
                  (tbl_rows t)\<rparr>\<rparr>))"

definition posts_del :: "js_number \<Rightarrow> int io" where
  "posts_del ident = (\<lambda>w.
     let t = posts_table w
     in (Inr (int (length (filter (\<lambda>r. Whole (po_id r) = ident) (tbl_rows t)))),
         w\<lparr>posts_table :=
             t\<lparr>tbl_rows := filter (\<lambda>r. Whole (po_id r) \<noteq> ident) (tbl_rows t)\<rparr>\<rparr>))"

definition PostRepository_findById :: "knex option \<Rightarrow> js_number \<Rightarrow> post option io" where
  "PostRepository_findById db ident =
     await (called PostRepo (FindById ident)) (\<lambda>_.
     try_catch
       (await (this_db db) (\<lambda>_.
        await (posts_first (\<lambda>r. Whole (po_id r) = ident)) (\<lambda>row.
        ret (Post_fromDatabase row))))
       (\<lambda>error. throw (Error (''Failed to find post by ID: '' @ message error))))"

definition PostRepository_create :: "knex option \<Rightarrow> post_data \<Rightarrow> post option io" where
  "PostRepository_create db postData =
     await (called PostRepo Create) (\<lambda>_.
     try_catch
       (let post = new_Post postData
        in await (this_db db) (\<lambda>_.
           await (posts_insert (post_title post) (post_description post)
                    (JSON_stringify (post_links post))) (\<lambda>ident.
           PostRepository_findById db (Whole ident))))
       (\<lambda>error. throw (Error (''Failed to create post: '' @ message error))))"

definition searchCondition :: "string \<Rightarrow> post_row \<Rightarrow> bool" where
  "searchCondition searchPattern r \<longleftrightarrow>
     sql_like searchPattern (po_title r)
     \<or> (case po_description r of None \<Rightarrow> False | Some d \<Rightarrow> sql_like searchPattern d)"

definition hasLinksCondition :: "bool option \<Rightarrow> post_row \<Rightarrow> bool" where
  "hasLinksCondition hasLinks r \<longleftrightarrow>
     (case hasLinks of
        None \<Rightarrow> True
      | Some True \<Rightarrow> po_links r \<noteq> Some ''[]'' \<and> po_links r \<noteq> None
      | Some False \<Rightarrow> po_links r = Some ''[]'' \<or> po_links r = None)"

text \<open>
  The \<open>where\<close> clauses \<open>findAll\<close> puts on both the row query and the count query:
  the search condition when \<open>search\<close> is a non-empty text, and the \<open>hasLinks\<close>
  condition.
\<close>

definition posts_matching :: "string option \<Rightarrow> bool option \<Rightarrow> post_row \<Rightarrow> bool" where
  "posts_matching search hasLinks r \<longleftrightarrow>
     (case search of None \<Rightarrow> True | Some t \<Rightarrow> t = [] \<or> searchCondition (''%'' @ t @ ''%'') r)
     \<and> hasLinksCondition hasLinks r"

definition PostRepository_findAll :: "knex option \<Rightarrow> post_query \<Rightarrow> post_page io" where
  "PostRepository_findAll db options =
     await (called PostRepo FindAll) (\<lambda>_.
     try_catch
       (let page = default_to 1 (pq_page options);
            limit = default_to 20 (pq_limit options);
            search = pq_search options;
            hasLinks = pq_hasLinks options;
            cond = posts_matching search hasLinks
        in await (this_db db) (\<lambda>_.
           await (posts_where cond) (\<lambda>counted.
           let total = int (length counted);
               offset = (page - 1) * limit
           in await (knex_offset offset) (\<lambda>_.
              await (posts_where cond) (\<lambda>matching.
              let rows = sql_limit_offset limit offset (rev (sort_key po_created_at matching));
                  posts = map (\<lambda>row. new_Post (post_row_data row)) rows
              in ret \<lparr>pg_posts = posts, pg_total = total,
                      pg_page = parseInt (JNumber page), pg_limit = parseInt (JNumber limit),
                      pg_pages = ceil_div total limit\<rparr>)))))
       (\<lambda>error. throw (Error (''Failed to find posts: '' @ message error))))"

definition post_merge :: "post \<Rightarrow> post_patch \<Rightarrow> post_data" where
  "post_merge existing updateData =
     \<lparr>pd_id = Some (pp_id updateData),
      pd_title = (case pp_title updateData of None \<Rightarrow> Some (post_title existing)
                  | Some t \<Rightarrow> Some t),
      pd_description = (case pp_description updateData of None \<Rightarrow> post_description existing
                        | Some d \<Rightarrow> d),
      pd_links = (case pp_links updateData of None \<Rightarrow> Some (post_links existing)
                  | Some ls \<Rightarrow> Some (JsonArray (map JsonString ls))),
      pd_created_at = None, pd_createdAt = post_createdAt existing,
      pd_updated_at = None, pd_updatedAt = post_updatedAt existing\<rparr>"

definition PostRepository_update ::
  "knex option \<Rightarrow> js_number \<Rightarrow> post_patch \<Rightarrow> post option io" where
  "PostRepository_update db ident updateData =
     await (called PostRepo (Update ident)) (\<lambda>_.
     try_catch
       (await (PostRepository_findById db ident) (\<lambda>existingPost.
        case existingPost of
          None \<Rightarrow> ret None
        | Some existing \<Rightarrow>
            let updatedPost = new_Post (post_merge existing updateData)
            in await (this_db db) (\<lambda>_. (\<lambda>w.
                 await (posts_update ident (post_title updatedPost) (post_description updatedPost)
                          (JSON_stringify (post_links updatedPost)) (now w))
                   (\<lambda>updatedCount.
                      if updatedCount = 0 then ret None
                      else PostRepository_findById db ident) w))))
       (\<lambda>error. throw (Error (''Failed to update post: '' @ message error))))"

definition PostRepository_delete :: "knex option \<Rightarrow> js_number \<Rightarrow> bool io" where
  "PostRepository_delete db ident =
     await (called PostRepo (Delete ident)) (\<lambda>_.
     try_catch
       (await (this_db db) (\<lambda>_.
        await (posts_del ident) (\<lambda>deletedCount.
        ret (0 < deletedCount))))
       (\<lambda>error. throw (Error (''Failed to delete post: '' @ message error))))"

definition PostRepository_searchByText :: "knex option \<Rightarrow> string \<Rightarrow> int \<Rightarrow> post list io" where
  "PostRepository_searchByText db searchText limit =
     await (called PostRepo (SearchByText searchText limit)) (\<lambda>_.
     try_catch
       (let searchPattern = ''%'' @ searchText @ ''%''
        in await (this_db db) (\<lambda>_.
           await (posts_where (searchCondition searchPattern)) (\<lambda>matching.
           let rows = sql_limit_offset limit 0 (rev (sort_key po_created_at matching))
           in ret (map (\<lambda>row. new_Post (post_row_data row)) rows))))
       (\<lambda>error. throw (Error (''Failed to search posts: '' @ message error))))"

definition PostRepository_existsByTitle :: "knex option \<Rightarrow> string \<Rightarrow> bool io" where
  "PostRepository_existsByTitle db title =
     await (called PostRepo (ExistsByTitle title)) (\<lambda>_.
     try_catch
       (await (this_db db) (\<lambda>_.
        await (posts_first (\<lambda>r. po_title r = title)) (\<lambda>result.
        ret (result \<noteq> None))))
       (\<lambda>error. throw (Error (''Failed to check post existence: '' @ message error))))"

section \<open>PostService\<close>

text \<open>
  The service is constructed with the module-level connection.  The class has the
  body of \<open>getPostById\<close> a second time, under the method name \<open>Id\<close>.
\<close>

definition PostService_db :: "knex option" where
  "PostService_db = Some Knex"

text \<open>\<open>value.description?.trim() || value.description\<close>\<close>

definition trimmed_description :: "string option option \<Rightarrow> string option" where
  "trimmed_description description =
     (case description of
        Some (Some d) \<Rightarrow> if trim d \<noteq> [] then Some (trim d) else Some d
      | _ \<Rightarrow> None)"

definition createPost :: "(string \<Rightarrow> bool) \<Rightarrow> post_input \<Rightarrow> post option io" where
  "createPost isUri postData =
     try_catch
       (case PostValidation_create isUri postData of
          Inl detail \<Rightarrow> throw (Error (''Validation error: '' @ detail))
        | Inr v \<Rightarrow>
            let normalizedTitle = trim (pc_title v)
            in await (PostRepository_existsByTitle PostService_db normalizedTitle)
                 (\<lambda>duplicateExists.
                    if duplicateExists
                    then throw (Error ''Duplicate post exists'')
                    else PostRepository_create PostService_db
                           \<lparr>pd_id = None, pd_title = Some (trim (pc_title v)),
                            pd_description = trimmed_description (pc_description v),
                            pd_links = Some (JsonArray (map JsonString (pc_links v))),
                            pd_created_at = None, pd_createdAt = None,
                            pd_updated_at = None, pd_updatedAt = None\<rparr>))
       (\<lambda>error. throw error)"

definition getAllPosts :: "post_query \<Rightarrow> post_page io" where
  "getAllPosts options =
     try_catch
       (case PostValidation_query options of
          Inl detail \<Rightarrow> throw (Error (''Query validation error: '' @ detail))
        | Inr v \<Rightarrow> PostRepository_findAll PostService_db v)
       (\<lambda>error. throw error)"

definition getPostById :: "js_value \<Rightarrow> post io" where
  "getPostById ident =
     try_catch
       (if \<not> truthy ident \<or> parseInt ident = NotANumber
        then throw (Error ''Invalid post ID'')
        else await (PostRepository_findById PostService_db (parseInt ident))
               (\<lambda>post.
                  case post of
                    None \<Rightarrow> throw (Error (''Post with ID '' @ toString ident @ '' not found''))
                  | Some found \<Rightarrow> ret found))
       (\<lambda>error. throw error)"

definition updatePost ::
  "(string \<Rightarrow> bool) \<Rightarrow> js_value \<Rightarrow> post_updateData \<Rightarrow> post option io" where
  "updatePost isUri ident updateData =
     try_catch
       (case PostValidation_update isUri (parseInt ident) updateData of
          Inl detail \<Rightarrow> throw (Error (''Validation error: '' @ detail))
        | Inr v \<Rightarrow>
            await (PostRepository_findById PostService_db (parseInt ident))
              (\<lambda>existingPost.
                 case existingPost of
                   None \<Rightarrow> throw (Error (''Post with ID '' @ toString ident @ '' not found.''))
                 | Some existing \<Rightarrow>
                     (case pp_title v of
                        Some title \<Rightarrow>
                          if title \<noteq> [] \<and> title \<noteq> post_title existing
                          then let normalizedTitle = trim title
                               in await (PostRepository_existsByTitle PostService_db normalizedTitle)
                                    (\<lambda>duplicateExists.
                                       if duplicateExists
                                       then throw (Error (''Post '' @ quoted normalizedTitle
                                                          @ '' already exists''))
                                       else PostRepository_update PostService_db (parseInt ident)
                                              (v\<lparr>pp_title := Some normalizedTitle\<rparr>))
                          else PostRepository_update PostService_db (parseInt ident) v
                      | None \<Rightarrow> PostRepository_update PostService_db (parseInt ident) v)))
       (\<lambda>error. throw error)"

definition deletePost :: "js_value \<Rightarrow> bool io" where
  "deletePost ident =
     try_catch
       (if \<not> truthy ident \<or> parseInt ident = NotANumber
        then throw (Error ''Invalid post ID'')
        else await (PostRepository_findById PostService_db (parseInt ident))
               (\<lambda>existingPost.
                  case existingPost of
                    None \<Rightarrow> throw (Error (''Post with ID '' @ toString ident @ '' not found''))
                  | Some existing \<Rightarrow>
                      await (PostRepository_delete PostService_db (parseInt ident))
                        (\<lambda>deleted.
                           if deleted then ret True
                           else throw (Error ''Failed to delete post''))))
       (\<lambda>error. throw error)"

text \<open>The check of the search text stands before the \<open>try\<close> block.\<close>

definition searchPosts :: "string option \<Rightarrow> int option \<Rightarrow> post list io" where
  "searchPosts searchText limit =
     (case searchText of
        None \<Rightarrow> throw (Error ''Search text is required'')
      | Some text \<Rightarrow>
          if text = [] \<or> length (trim text) \<le> 0
          then throw (Error ''Search text is required'')
          else try_catch
                 (PostRepository_searchByText PostService_db (trim text)
                    (case limit of None \<Rightarrow> 20 | Some l \<Rightarrow> l))
                 (\<lambda>error. throw error))"

section \<open>Sample states\<close>

definition sample_world :: world where
  "sample_world =
     \<lparr>keywords_table =
        \<lparr>tbl_rows = [\<lparr>kw_id = 1, kw_keyword = ''laptop'', kw_created_at = 3, kw_updated_at = 3\<rparr>],
         tbl_seq = 1\<rparr>,
      subreddits_table =
        \<lparr>tbl_rows = [\<lparr>sr_id = 1, sr_name = ''gaming'', sr_created_at = 5, sr_updated_at = 5\<rparr>],
         tbl_seq = 1\<rparr>,
      posts_table =
        \<lparr>tbl_rows = [\<lparr>po_id = 1, po_title = ''Deal'', po_description = None,
                       po_links = Some [], po_created_at = 6, po_updated_at = 6\<rparr>],
         tbl_seq = 1\<rparr>,
      now = 7, calls = []\<rparr>"

text \<open>A stand-in for the library's URI test in the examples.\<close>

definition sample_isUri :: "string \<Rightarrow> bool" where
  "sample_isUri l \<longleftrightarrow> startsWith l ''http://'' \<or> startsWith l ''https://''"

definition links_world :: world where
  \<open>links_world =
     \<lparr>keywords_table = \<lparr>tbl_rows = [], tbl_seq = 0\<rparr>,
      subreddits_table = \<lparr>tbl_rows = [], tbl_seq = 0\<rparr>,
      posts_table =
        \<lparr>tbl_rows =
           [\<lparr>po_id = 1, po_title = ''Laptop sale'', po_description = Some ''cheap'',
              po_links = Some ''["http://a.example/x"]'', po_created_at = 2, po_updated_at = 2\<rparr>,
            \<lparr>po_id = 2, po_title = ''No links'', po_description = None,
              po_links = Some ''[]'', po_created_at = 3, po_updated_at = 3\<rparr>,
            \<lparr>po_id = 3, po_title = ''Old row'', po_description = None,
              po_links = None, po_created_at = 4, po_updated_at = 4\<rparr>],
         tbl_seq = 3\<rparr>,
      now = 9, calls = []\<rparr>\<close>


section \<open>The pagination law\<close>


section \<open>Properties of the name normalisation\<close>

lemma isWhiteSpace_lowerChar: "isWhiteSpace (lowerChar c) = isWhiteSpace c"
  by (auto simp: isWhiteSpace_def lowerChar_def Let_def)

lemma lowerChar_idem: "lowerChar (lowerChar c) = lowerChar c"
  by (auto simp: lowerChar_def Let_def)

lemma toLowerCase_idem: "toLowerCase (toLowerCase s) = toLowerCase s"
  by (simp add: toLowerCase_def lowerChar_idem)

lemma dropWhile_ws_lower:
  "dropWhile isWhiteSpace (toLowerCase s) = toLowerCase (dropWhile isWhiteSpace s)"
  by (induction s) (auto simp: toLowerCase_def isWhiteSpace_lowerChar)

lemma rev_toLowerCase: "rev (toLowerCase s) = toLowerCase (rev s)"
  by (simp add: toLowerCase_def rev_map)

lemma trim_toLowerCase: "trim (toLowerCase s) = toLowerCase (trim s)"
  by (simp add: trim_def dropWhile_ws_lower rev_toLowerCase)

lemma replace_prefix:
  "s \<noteq> [] \<Longrightarrow> startsWith s pat \<Longrightarrow> replace s pat rep = rep @ drop (length pat) s"
  by (cases s) auto

lemma startsWith_nonempty: "startsWith s ''r/'' \<Longrightarrow> s \<noteq> []"
  by (auto simp: startsWith_def)

lemma normalizeName_eq:
  "normalizeName s =
     (if startsWith (toLowerCase (trim s)) ''r/'' then drop 2 (toLowerCase (trim s))
      else toLowerCase (trim s))"
  by (simp add: normalizeName_def Let_def replace_prefix startsWith_nonempty numeral_2_eq_2)

lemma dropWhile_take_fix:
  "dropWhile P y = y \<Longrightarrow> dropWhile P (take k y) = take k y"
  unfolding dropWhile_eq_self_iff by (cases y; cases k) auto

lemma dropWhile_suffix_fix:
  assumes "dropWhile P (rev n) = rev n"
  shows "dropWhile P (rev (dropWhile P n)) = rev (dropWhile P n)"
proof (cases "dropWhile P n = []")
  case True
  then show ?thesis by (simp only: rev.simps dropWhile.simps)
next
  case False
  have "rev (dropWhile P n) = take (length (dropWhile P n)) (rev n)"
  proof -
    have "rev n = rev (dropWhile P n) @ rev (takeWhile P n)"
      by (metis rev_append takeWhile_dropWhile_id)
    then show ?thesis by (metis append_eq_conv_conj length_rev)
  qed
  then show ?thesis using assms by (simp add: dropWhile_take_fix)
qed

lemma trim_no_trailing: "dropWhile isWhiteSpace (rev (trim s)) = rev (trim s)"
  by (simp add: trim_def)

lemma normalizeName_no_trailing:
  "dropWhile isWhiteSpace (rev (normalizeName s)) = rev (normalizeName s)"
proof -
  have t: "dropWhile isWhiteSpace (rev (toLowerCase (trim s))) = rev (toLowerCase (trim s))"
    by (simp add: rev_toLowerCase dropWhile_ws_lower trim_no_trailing)
  show ?thesis
    using t by (simp add: normalizeName_eq rev_drop dropWhile_take_fix)
qed

lemma normalizeName_lower: "toLowerCase (normalizeName s) = normalizeName s"
  by (simp add: normalizeName_eq toLowerCase_idem) (simp add: toLowerCase_def drop_map lowerChar_idem)

lemma trim_of_no_trailing:
  "dropWhile isWhiteSpace (rev n) = rev n \<Longrightarrow> trim n = dropWhile isWhiteSpace n"
  by (simp add: trim_def dropWhile_suffix_fix)

lemma toLowerCase_dropWhile_fix:
  "toLowerCase n = n \<Longrightarrow> toLowerCase (dropWhile P n) = dropWhile P n"
  unfolding toLowerCase_def dropWhile_eq_drop by (metis drop_map)

lemma normalizeName_twice:
  "normalizeName (normalizeName s) =
     (let d = dropWhile isWhiteSpace (normalizeName s)
      in if startsWith d ''r/'' then drop 2 d else d)"
  by (subst normalizeName_eq)
     (simp add: Let_def trim_of_no_trailing normalizeName_no_trailing
        toLowerCase_dropWhile_fix normalizeName_lower)

lemma length_dropWhile_eq: "length (dropWhile P n) = length n \<Longrightarrow> dropWhile P n = n"
proof -
  assume a: "length (dropWhile P n) = length n"
  have "length (takeWhile P n) + length (dropWhile P n) = length n"
    by (metis length_append takeWhile_dropWhile_id)
  with a have "takeWhile P n = []" by simp
  then show ?thesis by (metis append_Nil takeWhile_dropWhile_id)
qed


text \<open>
  Claim C5, as amended.  Normalising a subreddit name a second time gives the same
  value exactly when the once-normalised name has no leading white space and does
  not itself start with \<open>r/\<close>; only one \<open>r/\<close> prefix is removed, and the text
  behind the removed prefix is not trimmed again.
\<close>

theorem normalizeName_idempotent_iff:
  "normalizeName (normalizeName s) = normalizeName s \<longleftrightarrow>
     dropWhile isWhiteSpace (normalizeName s) = normalizeName s \<and>
     \<not> startsWith (normalizeName s) ''r/''"
proof
  assume fx: "normalizeName (normalizeName s) = normalizeName s"
  let ?n = "normalizeName s"
  let ?d = "dropWhile isWhiteSpace ?n"
  have le: "length ?d \<le> length ?n" by (rule length_dropWhile_le)
  have eq: "(if startsWith ?d ''r/'' then drop 2 ?d else ?d) = ?n"
    using fx by (simp add: normalizeName_twice Let_def)
  have ns: "\<not> startsWith ?d ''r/''"
  proof
    assume sw: "startsWith ?d ''r/''"
    then have "take 2 ?d = ''r/''" by (simp add: startsWith_def numeral_2_eq_2)
    then have "length (take 2 ?d) = 2" by simp
    then have "2 \<le> length ?d" by simp
    moreover from sw eq have "drop 2 ?d = ?n" by simp
    then have "length ?n = length ?d - 2" by (metis length_drop)
    ultimately show False using le by arith
  qed
  with eq have "?d = ?n" by simp
  with ns show "?d = ?n \<and> \<not> startsWith ?n ''r/''" by simp
next
  assume "dropWhile isWhiteSpace (normalizeName s) = normalizeName s \<and>
     \<not> startsWith (normalizeName s) ''r/''"
  then show "normalizeName (normalizeName s) = normalizeName s"
    by (simp add: normalizeName_twice Let_def)
qed


text \<open>
  Claim C5, instance of the amended statement: the input \<open>" r/Gaming "\<close> normalises to
  \<open>"gaming"\<close>, which normalises to itself.
\<close>

theorem normalizeName_idempotent_iff_witness:
  "normalizeName (normalizeName '' r/Gaming '') = normalizeName '' r/Gaming ''"
  using normalizeName_idempotent_iff [of "'' r/Gaming ''"]
  by (simp add: normalizeName_def trim_def toLowerCase_def lowerChar_def isWhiteSpace_def
      startsWith_def Let_def)

text \<open>
  Claim C5 as stated (idempotence for every input) fails: \<open>"r/r/deals"\<close> normalises
  to \<open>"r/deals"\<close>, and that normalises to \<open>"deals"\<close>.
\<close>

theorem normalizeName_not_idempotent:
  "normalizeName ''r/r/deals'' = ''r/deals'' \<and>
   normalizeName (normalizeName ''r/r/deals'') = ''deals''"
  by (simp add: normalizeName_def trim_def toLowerCase_def lowerChar_def isWhiteSpace_def
      startsWith_def Let_def)

section \<open>Reading a number back\<close>

declare bitLength.simps [simp del] decimal.simps [simp del]

lemma bitLength_le: "a < 2 ^ k \<Longrightarrow> bitLength a \<le> k"
proof (induction k arbitrary: a)
  case 0
  then show ?case by (simp add: bitLength.simps)
next
  case (Suc k)
  have "a div 2 < 2 ^ k" using Suc.prems by simp
  then have "bitLength (a div 2) \<le> k" by (rule Suc.IH)
  then show ?case by (subst bitLength.simps) simp
qed

text \<open>A safe integer is a double.\<close>

lemma toDouble_safe: "\<bar>n\<bar> < 9007199254740992 \<Longrightarrow> toDouble n = Whole n"
proof -
  assume a: "\<bar>n\<bar> < 9007199254740992"
  have "\<bar>n\<bar> < 2 ^ 53" using a by simp
  then have b: "bitLength \<bar>n\<bar> \<le> 53" by (rule bitLength_le)
  then have e: "bitLength \<bar>n\<bar> - 53 = 0" by simp
  show ?thesis using b by (auto simp add: toDouble_def Let_def e)
qed

lemma digit_char: "0 \<le> n \<Longrightarrow> n < 10 \<Longrightarrow>
  isDigit (char_of (48 + nat n)) \<and> digitValue (char_of (48 + nat n)) = n"
  by (simp add: isDigit_def digitValue_def Let_def) presburger

lemma decimal_digits: "0 \<le> n \<Longrightarrow> list_all isDigit (decimal n) \<and> decimal n \<noteq> []"
proof (induction n rule: decimal.induct)
  case (1 n)
  show ?case
  proof (cases "n < 10")
    case True
    with 1 show ?thesis by (subst (1 2) decimal.simps) (simp add: digit_char)
  next
    case False
    then have "0 \<le> n div 10" "0 \<le> n mod 10" "n mod 10 < 10" by simp_all
    with 1 False show ?thesis by (subst (1 2) decimal.simps) (simp add: digit_char)
  qed
qed

lemma digitsValue_snoc: "digitsValue r (ds @ [c]) = digitsValue r ds * r + digitValue c"
  by (simp add: digitsValue_def)

lemma digitsValue_decimal: "0 \<le> n \<Longrightarrow> digitsValue 10 (decimal n) = n"
proof (induction n rule: decimal.induct)
  case (1 n)
  show ?case
  proof (cases "n < 10")
    case True
    with 1 show ?thesis by (subst decimal.simps) (simp add: digit_char digitsValue_def)
  next
    case False
    then have "0 \<le> n div 10" "0 \<le> n mod 10" "n mod 10 < 10" by simp_all
    with 1 False show ?thesis
      by (subst decimal.simps) (simp add: digit_char digitsValue_snoc)
  qed
qed

lemma digit_not_space: "isDigit c \<Longrightarrow> \<not> isWhiteSpace c"
  by (auto simp: isDigit_def isWhiteSpace_def Let_def)

text \<open>\<open>parseInt\<close> of a text of decimal digits, with or without a minus sign.\<close>

lemma parseInt_digits:
  assumes "list_all isDigit ds" and "ds \<noteq> []"
  shows "parseInt_string ds = toDouble (digitsValue 10 ds)"
    and "parseInt_string (CHR ''-'' # ds) = toDouble (- digitsValue 10 ds)"
proof -
  obtain d rest where ds: "ds = d # rest" using assms(2) by (cases ds) auto
  have d: "isDigit d" and r: "list_all isDigit rest" using assms(1) ds by simp_all
  have "\<not> isWhiteSpace d" using d by (rule digit_not_space)
  then have dw: "dropWhile isWhiteSpace ds = ds" by (simp add: ds)
  have ns: "startsWith ds ''-'' = False" "startsWith ds ''+'' = False"
    using d by (auto simp: isDigit_def Let_def startsWith_def ds)
  have nx: "startsWith ds ''0x'' = False" "startsWith ds ''0X'' = False"
    using r ds by (cases rest; auto simp: startsWith_def isDigit_def Let_def)+
  have tw: "takeWhile isDigit ds = ds"
    using assms(1) by (simp add: takeWhile_eq_all_conv list_all_iff)
  show "parseInt_string ds = toDouble (digitsValue 10 ds)"
    by (simp add: parseInt_string_def Let_def dw ns nx tw assms(2))
  have dm: "isWhiteSpace (CHR ''-'') = False"
    by (simp add: isWhiteSpace_def)
  have sm: "startsWith (CHR ''-'' # ds) ''-'' = True"
    by (simp add: startsWith_def)
  show "parseInt_string (CHR ''-'' # ds) = toDouble (- digitsValue 10 ds)"
    by (simp add: parseInt_string_def Let_def dm sm nx tw assms(2))
qed

text \<open>\<open>parseInt\<close> gives a safe integer back as it is.\<close>

lemma parseInt_safe: "\<bar>n\<bar> < 9007199254740992 \<Longrightarrow> parseInt (JNumber n) = Whole n"
proof (cases "n < 0")
  case True
  assume a: "\<bar>n\<bar> < 9007199254740992"
  have p: "0 \<le> - n" using True by simp
  from decimal_digits [OF p] parseInt_digits(2) [of "decimal (- n)"] digitsValue_decimal [OF p]
  show ?thesis using True a by (simp add: parseInt_def integerToString_def toDouble_safe)
next
  case False
  assume a: "\<bar>n\<bar> < 9007199254740992"
  have p: "0 \<le> n" using False by simp
  from decimal_digits [OF p] parseInt_digits(1) [of "decimal n"] digitsValue_decimal [OF p]
  show ?thesis using False a by (simp add: parseInt_def integerToString_def toDouble_safe)
qed

lemma joi_number_Inr: "joi_number label v = Inr i \<Longrightarrow> v = Whole i \<and> \<bar>i\<bar> < 9007199254740992"
  by (auto simp: joi_number_def split: js_number.splits if_splits)

section \<open>Running the effects\<close>

lemma ret_apply: "ret x w = (Inr x, w)"
  by (simp add: ret_def)
lemma throw_apply: "throw e w = (Inl e, w)"
  by (simp add: throw_def)
lemma called_apply: "called r m w = (Inr (), w\<lparr>calls := calls w @ [(r, m)]\<rparr>)"
  by (simp add: called_def)
lemma await_apply: "await m f w = (case m w of (Inl e, w') \<Rightarrow> (Inl e, w') | (Inr x, w') \<Rightarrow> f x w')"
  by (simp add: await_def)
lemma try_catch_apply:
  "try_catch m h w = (case m w of (Inl e, w') \<Rightarrow> h e w' | (Inr x, w') \<Rightarrow> (Inr x, w'))"
  by (simp add: try_catch_def)
lemma try_catch_rethrow: "try_catch m throw = m"
  by (rule ext) (simp add: try_catch_def throw_def split: prod.splits sum.splits)
lemma this_db_Some: "this_db (Some k) w = (Inr (), w)"
  by (simp add: this_db_def ret_def)
lemma this_db_None: "this_db None w = (Inl (TypeError ''this.db is not a function''), w)"
  by (simp add: this_db_def throw_def)

lemmas run = ret_apply throw_apply called_apply await_apply try_catch_apply this_db_Some this_db_None

lemma SubredditRepository_findById_run:
  "SubredditRepository_findById (Some Knex) i w =
     (Inr (Subreddit_fromDatabase (find (\<lambda>r. Whole (sr_id r) = i) (tbl_rows (subreddits_table w)))),
      w\<lparr>calls := calls w @ [(SubredditRepo, FindById i)]\<rparr>)"
  by (simp add: SubredditRepository_findById_def subreddits_first_def run)

lemma find_not_None: "(find P xs \<noteq> None) \<longleftrightarrow> (\<exists>x\<in>set xs. P x)"
  by (auto simp: find_None_iff)

lemma find_Some_ex: "(\<exists>y. find P xs = Some y) \<longleftrightarrow> (\<exists>x\<in>set xs. P x)"
  using find_not_None [of P xs] by auto

lemma SubredditRepository_exists_run:
  "SubredditRepository_exists (Some Knex) n w =
     (Inr (\<exists>r\<in>set (tbl_rows (subreddits_table w)). sr_name r = n),
      w\<lparr>calls := calls w @ [(SubredditRepo, Exists n)]\<rparr>)"
  by (simp add: SubredditRepository_exists_def subreddits_first_def run find_Some_ex)

lemma next_id_fresh: "i \<in> set ids \<Longrightarrow> i < next_id ids sq"
proof -
  have "\<And>a. a \<le> fold max ids a" by (induction ids) (auto intro: order_trans[OF max.cobounded2])
  moreover have "\<And>a. i \<in> set ids \<Longrightarrow> i \<le> fold max ids a"
  proof (induction ids)
    case Nil then show ?case by simp
  next
    case (Cons x xs)
    have mono: "\<And>b. b \<le> fold max xs b" by (induction xs) (auto intro: order_trans[OF max.cobounded2])
    show ?case using Cons mono[of "max x a"] by auto
  qed
  ultimately show "i \<in> set ids \<Longrightarrow> i < next_id ids sq" by (force simp: next_id_def)
qed

lemma find_append_fresh:
  "\<forall>r\<in>set xs. \<not> P r \<Longrightarrow> P x \<Longrightarrow> find P (xs @ [x]) = Some x"
  by (induction xs) auto

lemma fresh_subreddit_id:
  "\<forall>r\<in>set (tbl_rows t). sr_id r \<noteq> next_id (map sr_id (tbl_rows t)) (tbl_seq t)"
  using next_id_fresh [of _ "map sr_id (tbl_rows t)" "tbl_seq t"] by fastforce

lemma fresh_post_id:
  "\<forall>r\<in>set (tbl_rows t). po_id r \<noteq> next_id (map po_id (tbl_rows t)) (tbl_seq t)"
  using next_id_fresh [of _ "map po_id (tbl_rows t)" "tbl_seq t"] by fastforce

lemma SubredditRepository_create_result:
  "fst (SubredditRepository_create (Some Knex)
          \<lparr>sd_id = None, sd_name = Some n, sd_created_at = None, sd_createdAt = None,
             sd_updated_at = None, sd_updatedAt = None\<rparr> w) = Inr r
   \<Longrightarrow> \<exists>s. r = Some s \<and> sub_name s = Some n"
  using fresh_subreddit_id [of "subreddits_table w"]
  by (auto simp add: SubredditRepository_create_def run new_Subreddit_def or_null_string_def
        subreddits_insert_def Let_def SubredditRepository_findById_run image_iff
        find_append_fresh Subreddit_fromDatabase_def subreddit_row_data_def
        split: if_splits)

lemma SubredditValidation_create_Inr:
  "SubredditValidation_create d = Inr name \<Longrightarrow> in_name d = Some name"
  by (auto simp: SubredditValidation_create_def split: option.splits if_splits)

lemma createSubreddit_returns:
  assumes "createSubreddit subredditData w = (Inr r, w')"
  shows "\<exists>name s. in_name subredditData = Some name \<and> r = Some s
           \<and> sub_name s = Some (normalizeName name)"
proof (cases "SubredditValidation_create subredditData")
  case (Inl m)
  with assms show ?thesis
    by (simp add: createSubreddit_def try_catch_rethrow throw_apply)
next
  case (Inr name)
  have nm: "in_name subredditData = Some name"
    using Inr by (rule SubredditValidation_create_Inr)
  from assms Inr have
    "fst (SubredditRepository_create (Some Knex)
          \<lparr>sd_id = None, sd_name = Some (normalizeName name), sd_created_at = None,
           sd_createdAt = None, sd_updated_at = None, sd_updatedAt = None\<rparr>
          (w\<lparr>calls := calls w @ [(SubredditRepo, Exists (normalizeName name))]\<rparr>)) = Inr r"
    by (simp add: createSubreddit_def try_catch_rethrow SubredditService_db_def await_apply
        SubredditRepository_exists_run throw_apply Let_def split: if_splits)
  from SubredditRepository_create_result [OF this] nm show ?thesis by simp
qed

lemma PostRepository_findById_run:
  "PostRepository_findById (Some Knex) i w =
     (Inr (Post_fromDatabase (find (\<lambda>r. Whole (po_id r) = i) (tbl_rows (posts_table w)))),
      w\<lparr>calls := calls w @ [(PostRepo, FindById i)]\<rparr>)"
  by (simp add: PostRepository_findById_def posts_first_def run)

lemma PostRepository_existsByTitle_run:
  "PostRepository_existsByTitle (Some Knex) t w =
     (Inr (\<exists>r\<in>set (tbl_rows (posts_table w)). po_title r = t),
      w\<lparr>calls := calls w @ [(PostRepo, ExistsByTitle t)]\<rparr>)"
  by (simp add: PostRepository_existsByTitle_def posts_first_def run find_Some_ex)

lemma PostRepository_create_result:
  "fst (PostRepository_create (Some Knex) d w) = Inr r
   \<Longrightarrow> \<exists>p. r = Some p \<and> post_title p = or_empty (pd_title d)"
  using fresh_post_id [of "posts_table w"]
  by (auto simp add: PostRepository_create_def run new_Post_def
        posts_insert_def Let_def PostRepository_findById_run
        find_append_fresh Post_fromDatabase_def post_row_data_def or_empty_def
        split: if_splits)

lemma PostValidation_create_Inr:
  "PostValidation_create isUri d = Inr v \<Longrightarrow> pin_title d = Some (pc_title v)"
  by (auto simp: PostValidation_create_def Let_def split: option.splits if_splits)

lemma createPost_returns:
  assumes "createPost isUri postData w = (Inr r, w')"
  shows "\<exists>title p. pin_title postData = Some title \<and> r = Some p \<and> post_title p = trim title"
proof (cases "PostValidation_create isUri postData")
  case (Inl m)
  with assms show ?thesis
    by (simp add: createPost_def try_catch_rethrow throw_apply)
next
  case (Inr v)
  have nm: "pin_title postData = Some (pc_title v)"
    using Inr by (rule PostValidation_create_Inr)
  let ?d = "\<lparr>pd_id = None, pd_title = Some (trim (pc_title v)),
              pd_description = trimmed_description (pc_description v),
              pd_links = Some (JsonArray (map JsonString (pc_links v))),
              pd_created_at = None, pd_createdAt = None,
              pd_updated_at = None, pd_updatedAt = None\<rparr>"
  from assms Inr have
    "fst (PostRepository_create (Some Knex) ?d
          (w\<lparr>calls := calls w @ [(PostRepo, ExistsByTitle (trim (pc_title v)))]\<rparr>)) = Inr r"
    by (simp add: createPost_def try_catch_rethrow PostService_db_def await_apply
        PostRepository_existsByTitle_run throw_apply Let_def split: if_splits)
  from PostRepository_create_result [OF this] nm show ?thesis
    by (simp add: or_empty_def)
qed


lemma KeywordRepository_findById_run:
  "KeywordRepository_findById None i w =
     (Inl (Error ''Failed to find keyword by ID: this.db is not a function''),
      w\<lparr>calls := calls w @ [(KeywordRepo, FindById i)]\<rparr>)"
  by (simp add: KeywordRepository_findById_def run)

lemma missing_method_apply: "missing_method name w = (Inl (TypeError (name @ '' is not a function'')), w)"
  by (simp add: missing_method_def throw_apply)

lemma createKeyword_run:
  "createKeyword keywordData w =
     (Inl (case KeywordValidation_create keywordData of
             Inl detail \<Rightarrow> Error (''Validation error: '' @ detail)
           | Inr k \<Rightarrow> TypeError ''this.keywordRepository.exists is not a function''), w)"
  by (simp add: createKeyword_def try_catch_rethrow throw_apply await_apply missing_method_apply
      Let_def split: sum.splits)

lemma getAllKeywords_run:
  "getAllKeywords options w =
     (Inl (case KeywordValidation_query options of
             Inl detail \<Rightarrow> Error (''Query validation error: '' @ detail)
           | Inr v \<Rightarrow> TypeError ''this.keywordRepository.findAll is not a function''), w)"
  by (simp add: getAllKeywords_def try_catch_rethrow throw_apply missing_method_apply
      split: sum.splits)

lemma searchKeywords_run:
  "searchKeywords searchText limit w =
     (Inl (case searchText of
             None \<Rightarrow> Error ''Search text is required''
           | Some text \<Rightarrow>
               if trim text = [] then Error ''Search text is required''
               else TypeError ''this.keywordRepository.searchByText is not a function''), w)"
  by (cases searchText)
     (auto simp add: searchKeywords_def try_catch_rethrow throw_apply missing_method_apply trim_def)

lemma getStatistics_run:
  "KeywordService_getStatistics w =
     (Inl (TypeError ''this.keywordRepository.getStatistics is not a function''), w)"
  by (simp add: KeywordService_getStatistics_def try_catch_rethrow missing_method_apply)

lemma searchSubreddits_blank:
  "searchText = None \<or> trim (the searchText) = [] \<Longrightarrow>
   \<exists>e. searchSubreddits searchText limit w = (Inl e, w)"
  by (cases searchText) (auto simp add: searchSubreddits_def try_catch_rethrow throw_apply Let_def)

lemma searchPosts_blank:
  "searchText = None \<or> trim (the searchText) = [] \<Longrightarrow>
   searchPosts searchText limit w = (Inl (Error ''Search text is required''), w)"
  by (cases searchText) (auto simp add: searchPosts_def try_catch_rethrow throw_apply Let_def)

lemma getSubredditById_invalid:
  "\<not> truthy ident \<or> parseInt ident = NotANumber \<Longrightarrow>
     getSubredditById ident w = (Inl (Error ''Invalid subreddit ID''), w)"
  by (auto simp: getSubredditById_def try_catch_rethrow throw_apply)

lemma getPostById_invalid:
  "\<not> truthy ident \<or> parseInt ident = NotANumber \<Longrightarrow>
     getPostById ident w = (Inl (Error ''Invalid post ID''), w)"
  by (auto simp: getPostById_def try_catch_rethrow throw_apply)

lemma getKeywordById_invalid:
  "\<not> truthy ident \<or> parseInt ident = NotANumber \<Longrightarrow>
     getKeywordById ident w = (Inl (Error ''Invalid keyword ID''), w)"
  by (auto simp: getKeywordById_def try_catch_rethrow throw_apply)

lemma getSubredditById_valid:
  "truthy ident \<Longrightarrow> parseInt ident \<noteq> NotANumber \<Longrightarrow>
     getSubredditById ident w =
       (case find (\<lambda>r. Whole (sr_id r) = parseInt ident) (tbl_rows (subreddits_table w)) of
          None \<Rightarrow> Inl (Error (''Subreddit with ID '' @ toString ident @ '' not found''))
        | Some r \<Rightarrow> Inr (new_Subreddit (subreddit_row_data r)),
        w\<lparr>calls := calls w @ [(SubredditRepo, FindById (parseInt ident))]\<rparr>)"
  by (simp add: getSubredditById_def try_catch_rethrow throw_apply ret_apply await_apply
      SubredditService_db_def SubredditRepository_findById_run Subreddit_fromDatabase_def
      split: option.splits)

lemma getPostById_valid:
  "truthy ident \<Longrightarrow> parseInt ident \<noteq> NotANumber \<Longrightarrow>
     getPostById ident w =
       (case find (\<lambda>r. Whole (po_id r) = parseInt ident) (tbl_rows (posts_table w)) of
          None \<Rightarrow> Inl (Error (''Post with ID '' @ toString ident @ '' not found''))
        | Some r \<Rightarrow> Inr (new_Post (post_row_data r)),
        w\<lparr>calls := calls w @ [(PostRepo, FindById (parseInt ident))]\<rparr>)"
  by (simp add: getPostById_def try_catch_rethrow throw_apply ret_apply await_apply
      PostService_db_def PostRepository_findById_run Post_fromDatabase_def
      split: option.splits)

lemma getKeywordById_valid:
  "truthy ident \<Longrightarrow> parseInt ident \<noteq> NotANumber \<Longrightarrow>
     getKeywordById ident w =
       (Inl (Error ''Failed to find keyword by ID: this.db is not a function''),
        w\<lparr>calls := calls w @ [(KeywordRepo, FindById (parseInt ident))]\<rparr>)"
  by (simp add: getKeywordById_def try_catch_rethrow throw_apply ret_apply await_apply
      KeywordService_db_def KeywordRepository_findById_run)

lemma find_None_ball: "\<forall>r\<in>set xs. \<not> P r \<Longrightarrow> find P xs = None"
  by (simp add: find_None_iff)

lemma getSubredditById_not_found:
  "truthy ident \<Longrightarrow> parseInt ident \<noteq> NotANumber \<Longrightarrow>
   \<forall>r\<in>set (tbl_rows (subreddits_table w)). Whole (sr_id r) \<noteq> parseInt ident \<Longrightarrow>
   getSubredditById ident w =
     (Inl (Error (''Subreddit with ID '' @ toString ident @ '' not found'')),
      w\<lparr>calls := calls w @ [(SubredditRepo, FindById (parseInt ident))]\<rparr>)"
  by (simp add: getSubredditById_valid find_None_ball)

lemma deleteSubreddit_not_found:
  "truthy ident \<Longrightarrow> parseInt ident \<noteq> NotANumber \<Longrightarrow>
   \<forall>r\<in>set (tbl_rows (subreddits_table w)). Whole (sr_id r) \<noteq> parseInt ident \<Longrightarrow>
   deleteSubreddit ident w =
     (Inl (Error (''Subreddit with ID '' @ toString ident @ '' not found'')),
      w\<lparr>calls := calls w @ [(SubredditRepo, FindById (parseInt ident))]\<rparr>)"
  by (simp add: deleteSubreddit_def try_catch_rethrow throw_apply await_apply
      SubredditService_db_def SubredditRepository_findById_run Subreddit_fromDatabase_def
      find_None_ball)

lemma updateSubreddit_not_found:
  "SubredditValidation_update (parseInt ident) updateData = Inr v \<Longrightarrow>
   \<forall>r\<in>set (tbl_rows (subreddits_table w)). Whole (sr_id r) \<noteq> parseInt ident \<Longrightarrow>
   updateSubreddit ident updateData w =
     (Inl (Error (''Subreddit with ID '' @ toString ident @ '' not found.'')),
      w\<lparr>calls := calls w @ [(SubredditRepo, FindById (parseInt ident))]\<rparr>)"
  by (simp add: updateSubreddit_def try_catch_rethrow throw_apply await_apply
      SubredditService_db_def SubredditRepository_findById_run Subreddit_fromDatabase_def
      find_None_ball)

lemma getPostById_not_found:
  "truthy ident \<Longrightarrow> parseInt ident \<noteq> NotANumber \<Longrightarrow>
   \<forall>r\<in>set (tbl_rows (posts_table w)). Whole (po_id r) \<noteq> parseInt ident \<Longrightarrow>
   getPostById ident w =
     (Inl (Error (''Post with ID '' @ toString ident @ '' not found'')),
      w\<lparr>calls := calls w @ [(PostRepo, FindById (parseInt ident))]\<rparr>)"
  by (simp add: getPostById_valid find_None_ball)

lemma deletePost_not_found:
  "truthy ident \<Longrightarrow> parseInt ident \<noteq> NotANumber \<Longrightarrow>
   \<forall>r\<in>set (tbl_rows (posts_table w)). Whole (po_id r) \<noteq> parseInt ident \<Longrightarrow>
   deletePost ident w =
     (Inl (Error (''Post with ID '' @ toString ident @ '' not found'')),
      w\<lparr>calls := calls w @ [(PostRepo, FindById (parseInt ident))]\<rparr>)"
  by (simp add: deletePost_def try_catch_rethrow throw_apply await_apply
      PostService_db_def PostRepository_findById_run Post_fromDatabase_def
      find_None_ball)

lemma updatePost_not_found:
  "PostValidation_update isUri (parseInt ident) updateData = Inr v \<Longrightarrow>
   \<forall>r\<in>set (tbl_rows (posts_table w)). Whole (po_id r) \<noteq> parseInt ident \<Longrightarrow>
   updatePost isUri ident updateData w =
     (Inl (Error (''Post with ID '' @ toString ident @ '' not found.'')),
      w\<lparr>calls := calls w @ [(PostRepo, FindById (parseInt ident))]\<rparr>)"
  by (simp add: updatePost_def try_catch_rethrow throw_apply await_apply
      PostService_db_def PostRepository_findById_run Post_fromDatabase_def
      find_None_ball)




lemma knex_offset_apply:
  "knex_offset value w =
     (if value < 0 then Inl (Error ''A non-negative integer must be provided to offset.'')
      else Inr (), w)"
  by (simp add: knex_offset_def throw_apply ret_apply)

lemma SubredditRepository_findAll_run:
  "SubredditRepository_findAll (Some Knex) options w =
     (let page = default_to 1 (sq_page options);
          limit = default_to 20 (sq_limit options);
          matching = filter (subreddits_matching (sq_search options)) (tbl_rows (subreddits_table w))
      in (if (page - 1) * limit < 0
          then Inl (Error ''Failed to find subreddits: A non-negative integer must be provided to offset.'')
          else Inr \<lparr>sp_subreddits = map (\<lambda>row. new_Subreddit (subreddit_row_data row))
                  (sql_limit_offset limit ((page - 1) * limit) (sort_key sr_name matching)),
               sp_total = int (length matching), sp_page = parseInt (JNumber page),
               sp_limit = parseInt (JNumber limit),
               sp_pages = ceil_div (int (length matching)) limit\<rparr>,
          w\<lparr>calls := calls w @ [(SubredditRepo, FindAll)]\<rparr>))"
  by (simp add: SubredditRepository_findAll_def run knex_offset_apply subreddits_where_def Let_def)

lemma PostRepository_findAll_run:
  "PostRepository_findAll (Some Knex) options w =
     (let page = default_to 1 (pq_page options);
          limit = default_to 20 (pq_limit options);
          matching = filter (posts_matching (pq_search options) (pq_hasLinks options))
                       (tbl_rows (posts_table w))
      in (if (page - 1) * limit < 0
          then Inl (Error ''Failed to find posts: A non-negative integer must be provided to offset.'')
          else Inr \<lparr>pg_posts = map (\<lambda>row. new_Post (post_row_data row))
                  (sql_limit_offset limit ((page - 1) * limit) (rev (sort_key po_created_at matching))),
               pg_total = int (length matching), pg_page = parseInt (JNumber page),
               pg_limit = parseInt (JNumber limit),
               pg_pages = ceil_div (int (length matching)) limit\<rparr>,
          w\<lparr>calls := calls w @ [(PostRepo, FindAll)]\<rparr>))"
  by (simp add: PostRepository_findAll_def run knex_offset_apply posts_where_def Let_def)

lemma validate_page_limit_Inr:
  "validate_page_limit page limit = Inr (p, l) \<Longrightarrow>
     p = default_to 1 page \<and> l = default_to 20 limit \<and> 1 \<le> p \<and> p < 9007199254740992
     \<and> 1 \<le> l \<and> l \<le> 100"
  by (auto simp: validate_page_limit_def split: sum.splits if_splits dest!: joi_number_Inr)


lemma PostValidation_query_Inr:
  "PostValidation_query options = Inr v \<Longrightarrow>
     (\<exists>p l. pq_page v = Some p \<and> pq_limit v = Some l \<and> 1 \<le> p \<and> p < 9007199254740992
        \<and> 1 \<le> l \<and> l \<le> 100
        \<and> p = default_to 1 (pq_page options) \<and> l = default_to 20 (pq_limit options))
     \<and> pq_search v = pq_search options \<and> pq_hasLinks v = pq_hasLinks options"
  by (auto simp: PostValidation_query_def validate_search_def Let_def
      split: sum.splits option.splits if_splits prod.splits dest!: validate_page_limit_Inr)


section \<open>Serialised link lists are read back\<close>

lemma char_eqI: "(of_char c :: nat) = of_char d \<Longrightarrow> c = d"
  by simp

lemma hexDigit_props: "k < 16 \<Longrightarrow> isHexDigit (hexDigit k) \<and> digitValue (hexDigit k) = int k"
  by (auto simp: hexDigit_def isHexDigit_def digitValue_def Let_def)

lemma lex_escaped_char:
  "tokenize (InString acc) (escapeChar c @ rest) = tokenize (InString (acc @ [c])) rest"
proof -
  let ?n = "of_char c :: nat"
  have c: "c = char_of ?n" by simp
  consider "c = CHR 0x22" | "?n = 92" | "?n = 8" | "?n = 12" | "?n = 10" | "?n = 13" | "?n = 9"
    | "?n < 32" "?n \<noteq> 8" "?n \<noteq> 12" "?n \<noteq> 10" "?n \<noteq> 13" "?n \<noteq> 9"
    | "32 \<le> ?n" "c \<noteq> CHR 0x22" "?n \<noteq> 92"
    by linarith
  then show ?thesis
  proof cases
    case 1 then show ?thesis by (simp add: escapeChar_def unescape_def Let_def)
  next
    case 2
    then have "c = CHR 0x5C" by (intro char_eqI) simp
    then show ?thesis by (simp add: escapeChar_def unescape_def Let_def)
  next
    case 3
    then have "c = CHR 0x08" by (intro char_eqI) simp
    then show ?thesis by (simp add: escapeChar_def unescape_def Let_def)
  next
    case 4
    then have "c = CHR 0x0C" by (intro char_eqI) simp
    then show ?thesis by (simp add: escapeChar_def unescape_def Let_def)
  next
    case 5
    then have "c = CHR 0x0A" by (intro char_eqI) simp
    then show ?thesis by (simp add: escapeChar_def unescape_def Let_def)
  next
    case 6
    then have "c = CHR 0x0D" by (intro char_eqI) simp
    then show ?thesis by (simp add: escapeChar_def unescape_def Let_def)
  next
    case 7
    then have "c = CHR 0x09" by (intro char_eqI) simp
    then show ?thesis by (simp add: escapeChar_def unescape_def Let_def)
  next
    case 8
    have d1: "?n div 16 < 16" and d2: "?n mod 16 < 16" using 8(1) by auto
    have ne: "c \<noteq> CHR 0x22" "?n \<noteq> 92" using 8(1) by auto
    have esc: "escapeChar c = [CHR 0x5C, CHR ''u'', CHR ''0'', CHR ''0'', hexDigit (?n div 16), hexDigit (?n mod 16)]"
      using 8 ne by (simp add: escapeChar_def Let_def)
    have zero: "digitValue CHR ''0'' = 0" by (simp add: digitValue_def)
    have arith: "int (?n div 16) * 16 + int (?n mod 16) = int ?n"
      by (simp add: of_nat_div of_nat_mod)
    have val: "digitsValue 16 [CHR ''0'', CHR ''0'', hexDigit (?n div 16), hexDigit (?n mod 16)] = int ?n"
      using hexDigit_props[OF d1] hexDigit_props[OF d2] arith
      by (simp add: digitsValue_def zero)
    have "char_of (int ?n) = c" by simp
    then show ?thesis
      using hexDigit_props[OF d1] hexDigit_props[OF d2] val
      by (simp add: esc isHexDigit_def Let_def)
  next
    case 9
    have "c \<noteq> CHR 0x5C" using 9(3) by auto
    with 9 show ?thesis by (simp add: escapeChar_def Let_def)
  qed
qed

lemma lex_escaped_string:
  "tokenize (InString acc) (concat (map escapeChar s) @ CHR 0x22 # rest)
     = emit (TValue (JsonString (acc @ s))) (tokenize Default rest)"
  by (induction s arbitrary: acc) (simp_all add: lex_escaped_char)

lemma lex_quoted:
  "tokenize Default (quoteJSONString s @ rest) = emit (TValue (JsonString s)) (tokenize Default rest)"
  using lex_escaped_string [of "[]" s rest]
  by (simp add: quoteJSONString_def isJsonSpace_def punctuation_def)

lemma lex_joined:
  "tokenize Default (joinWith '','' (map quoteJSONString ls) @ '']'')
     = Some (string_tokens ls @ [TRBracket])"
  by (induction ls rule: string_tokens.induct)
     (simp_all add: lex_quoted emit_def isJsonSpace_def punctuation_def)

lemma parse_items:
  "mode = WantValue \<or> mode = WantValueOrClose \<Longrightarrow>
   parseTokens mode [ArrayFrame items] (string_tokens (x # xs) @ [TRBracket])
     = Some (JsonArray (items @ map JsonString (x # xs)))"
  by (induction xs arbitrary: items x mode) auto

lemma JSON_roundtrip_links:
  "JSON_parse (JSON_stringify (JsonArray (map JsonString ls))) = Some (JsonArray (map JsonString ls))"
proof -
  have s: "JSON_stringify (JsonArray (map JsonString ls))
             = CHR ''['' # joinWith '','' (map quoteJSONString ls) @ '']''"
    by (simp add: comp_def)
  have l: "tokenize Default (JSON_stringify (JsonArray (map JsonString ls)))
             = Some (TLBracket # string_tokens ls @ [TRBracket])"
    unfolding s using lex_joined [of ls]
    by (simp add: isJsonSpace_def punctuation_def emit_def)
  show ?thesis
  proof (cases ls)
    case Nil
    then show ?thesis using l by (simp add: JSON_parse_def)
  next
    case (Cons x xs)
    then show ?thesis using l parse_items [of WantValueOrClose "[]" x xs]
      by (simp add: JSON_parse_def)
  qed
qed

lemma stringify_links_empty_iff:
  "JSON_stringify (JsonArray (map JsonString ls)) = ''[]'' \<longleftrightarrow> ls = []"
proof (cases ls)
  case Nil then show ?thesis by simp
next
  case (Cons x xs)
  have "joinWith '','' (map quoteJSONString (x # xs)) \<noteq> []"
    by (cases xs) (simp_all add: quoteJSONString_def)
  then show ?thesis using Cons by (auto simp: comp_def)
qed

lemma parseLinks_stringified:
  "parseLinks (Some (JsonString (JSON_stringify (JsonArray (map JsonString ls)))))
     = JsonArray (map JsonString ls)"
  by (simp add: parseLinks_def JSON_roundtrip_links del: JSON_stringify.simps) (simp)


section \<open>Listing with filters and pages\<close>

lemma getAllPosts_run:
  "getAllPosts options w =
     (case PostValidation_query options of
        Inl detail \<Rightarrow> (Inl (Error (''Query validation error: '' @ detail)), w)
      | Inr v \<Rightarrow> PostRepository_findAll (Some Knex) v w)"
  by (simp add: getAllPosts_def try_catch_rethrow throw_apply PostService_db_def split: sum.splits)


lemma offset_nonneg: "1 \<le> p \<Longrightarrow> 1 \<le> l \<Longrightarrow> \<not> (p - 1) * l < (0::int)"
  by (simp add: not_less)

lemma set_sql_limit_offset: "set (sql_limit_offset limit offset xs) \<subseteq> set xs"
  using set_take_subset [of "nat limit" "drop (nat offset) xs"] set_drop_subset [of "nat offset" xs]
  by (auto simp: sql_limit_offset_def Let_def)

lemma post_links_from_row:
  "po_links r = Some s \<Longrightarrow> post_links (new_Post (post_row_data r)) = parseLinks (Some (JsonString s))"
  by (simp add: new_Post_def post_row_data_def)

lemma hasLinks_true_matching:
  "posts_matching search (Some True) r \<longleftrightarrow>
     posts_matching search None r \<and> (\<exists>s. po_links r = Some s \<and> s \<noteq> ''[]'')"
  by (auto simp: posts_matching_def hasLinksCondition_def)

lemma getAllPosts_hasLinks:
  assumes "fst (getAllPosts options w) = Inr res" and "pq_hasLinks options = Some True"
  shows "pg_total res =
           int (length (filter (\<lambda>r. posts_matching (pq_search options) None r
                                    \<and> (\<exists>s. po_links r = Some s \<and> s \<noteq> ''[]''))
                          (tbl_rows (posts_table w))))
       \<and> (\<forall>p\<in>set (pg_posts res). \<exists>r\<in>set (tbl_rows (posts_table w)). \<exists>s.
             po_links r = Some s \<and> s \<noteq> ''[]'' \<and> p = new_Post (post_row_data r)
           \<and> post_links p = parseLinks (Some (JsonString s))
           \<and> (\<forall>ls. s = JSON_stringify (JsonArray (map JsonString ls)) \<longrightarrow>
                  ls \<noteq> [] \<and> post_links p = JsonArray (map JsonString ls)))"
proof (cases "PostValidation_query options")
  case (Inl m)
  with assms show ?thesis by (simp add: getAllPosts_run)
next
  case (Inr v)
  from PostValidation_query_Inr [OF Inr] assms(2)
  have v: "pq_search v = pq_search options" "pq_hasLinks v = Some True" by simp_all
  from PostValidation_query_Inr [OF Inr] obtain pg lm where
    pl: "pq_page v = Some pg" "pq_limit v = Some lm" "1 \<le> pg" "1 \<le> lm" by blast
  have off: "\<not> (pg - 1) * lm < 0" using pl(3,4) by (rule offset_nonneg)
  let ?matching = "filter (posts_matching (pq_search options) (Some True)) (tbl_rows (posts_table w))"
  obtain limit offset where
    res: "pg_posts res = map (\<lambda>row. new_Post (post_row_data row))
            (sql_limit_offset limit offset (rev (sort_key po_created_at ?matching)))"
      "pg_total res = int (length ?matching)"
    using assms(1) Inr v pl(1,2) off
    by (auto simp add: getAllPosts_run PostRepository_findAll_run Let_def default_to_def)
  have total: "pg_total res =
           int (length (filter (\<lambda>r. posts_matching (pq_search options) None r
                                    \<and> (\<exists>s. po_links r = Some s \<and> s \<noteq> ''[]''))
                          (tbl_rows (posts_table w))))"
  proof -
    have "posts_matching (pq_search options) (Some True) =
            (\<lambda>r. posts_matching (pq_search options) None r
                  \<and> (\<exists>s. po_links r = Some s \<and> s \<noteq> ''[]''))"
      by (rule ext) (rule hasLinks_true_matching)
    then show ?thesis by (simp add: res(2))
  qed
  have each: "\<exists>r\<in>set (tbl_rows (posts_table w)). \<exists>s.
             po_links r = Some s \<and> s \<noteq> ''[]'' \<and> p = new_Post (post_row_data r)
           \<and> post_links p = parseLinks (Some (JsonString s))
           \<and> (\<forall>ls. s = JSON_stringify (JsonArray (map JsonString ls)) \<longrightarrow>
                  ls \<noteq> [] \<and> post_links p = JsonArray (map JsonString ls))"
    if "p \<in> set (pg_posts res)" for p
  proof -
    from that obtain r where r: "p = new_Post (post_row_data r)"
      "r \<in> set (sql_limit_offset limit offset (rev (sort_key po_created_at ?matching)))"
      by (auto simp: res(1))
    from r(2) set_sql_limit_offset have "r \<in> set ?matching" by fastforce
    then have rin: "r \<in> set (tbl_rows (posts_table w))"
      and "posts_matching (pq_search options) (Some True) r" by simp_all
    then obtain s where s: "po_links r = Some s" "s \<noteq> ''[]''"
      by (auto simp: hasLinks_true_matching)
    have pl: "post_links p = parseLinks (Some (JsonString s))"
      using r(1) s(1) by (simp add: post_links_from_row)
    have "ls \<noteq> [] \<and> post_links p = JsonArray (map JsonString ls)"
      if "s = JSON_stringify (JsonArray (map JsonString ls))" for ls
      using that s(2) pl stringify_links_empty_iff [of ls] parseLinks_stringified [of ls]
      by auto
    with rin s pl r(1) show ?thesis by blast
  qed
  from total each show ?thesis by blast
qed







text \<open>
  \<open>findAll\<close> with a negative offset fails when the query is built, after the count.
\<close>

lemma findAll_negative_offset:
  assumes "(default_to 1 (sq_page sq) - 1) * default_to 20 (sq_limit sq) < 0"
  shows "SubredditRepository_findAll (Some Knex) sq w =
     (Inl (Error ''Failed to find subreddits: A non-negative integer must be provided to offset.''),
      w\<lparr>calls := calls w @ [(SubredditRepo, FindAll)]\<rparr>)"
  using assms by (simp add: SubredditRepository_findAll_run Let_def)




section \<open>A create with a fresh key returns\<close>

lemma createSubreddit_succeeds:
  assumes "SubredditValidation_create subredditData = Inr name"
    and "normalizeName name \<noteq> []"
    and "\<forall>r\<in>set (tbl_rows (subreddits_table w)). sr_name r \<noteq> normalizeName name"
  shows "\<exists>s. fst (createSubreddit subredditData w) = Inr (Some s)"
  using assms fresh_subreddit_id [of "subreddits_table w"]
  by (auto simp add: createSubreddit_def try_catch_rethrow SubredditService_db_def await_apply
        SubredditRepository_exists_run throw_apply Let_def
        SubredditRepository_create_def run new_Subreddit_def or_null_string_def
        subreddits_insert_def SubredditRepository_findById_run image_iff
        find_append_fresh Subreddit_fromDatabase_def)

lemma createPost_succeeds:
  assumes "PostValidation_create isUri postData = Inr v"
    and "\<forall>r\<in>set (tbl_rows (posts_table w)). po_title r \<noteq> trim (pc_title v)"
  shows "\<exists>p. fst (createPost isUri postData w) = Inr (Some p)"
  using assms fresh_post_id [of "posts_table w"]
  by (auto simp add: createPost_def try_catch_rethrow PostService_db_def await_apply
        PostRepository_existsByTitle_run throw_apply Let_def
        PostRepository_create_def run
        posts_insert_def PostRepository_findById_run
        find_append_fresh Post_fromDatabase_def)

section \<open>The name written by an update\<close>

lemma find_Some_filter: "find P xs = Some x \<Longrightarrow> filter P xs \<noteq> []"
  by (induction xs) (auto split: if_splits)

lemma SubredditRepository_update_rows:
  assumes "SubredditRepository_update (Some Knex) ident \<lparr>pv_id = i, pv_name = Some t\<rparr> w = (Inr r, w')"
  shows "tbl_rows (subreddits_table w') = tbl_rows (subreddits_table w)
           \<and> (\<forall>row\<in>set (tbl_rows (subreddits_table w)). Whole (sr_id row) \<noteq> ident)
         \<or> tbl_rows (subreddits_table w') =
             map (\<lambda>row. if Whole (sr_id row) = ident
                         then row\<lparr>sr_name := t, sr_updated_at := now w\<rparr> else row)
                 (tbl_rows (subreddits_table w))"
  using assms
  by (auto simp add: SubredditRepository_update_def run SubredditRepository_findById_run
        Subreddit_fromDatabase_def subreddits_update_def Let_def new_Subreddit_def
        subreddit_merge_def or_null_string_def find_None_iff
        dest: find_Some_filter
        split: option.splits if_splits prod.splits sum.splits)

lemma SubredditValidation_update_name:
  "SubredditValidation_update parsed \<lparr>ud_id = oid, ud_name = Some name\<rparr> = Inr v \<Longrightarrow>
     name \<noteq> [] \<and> (\<exists>i. v = \<lparr>pv_id = i, pv_name = Some name\<rparr>)"
  by (auto simp: SubredditValidation_update_def split: sum.splits if_splits)

text \<open>
  What \<open>updateSubreddit\<close> writes, on every input: when it succeeds with a name that
  differs from the stored one, the row carries the trimmed name.
\<close>

lemma updateSubreddit_writes_trimmed:
  assumes ok: "updateSubreddit ident \<lparr>ud_id = oid, ud_name = Some name\<rparr> w = (Inr r, w')"
    and changed: "\<forall>row\<in>set (tbl_rows (subreddits_table w)).
                    Whole (sr_id row) = parseInt ident \<longrightarrow> sr_name row \<noteq> name"
  shows "\<forall>row\<in>set (tbl_rows (subreddits_table w')).
           Whole (sr_id row) = parseInt ident \<longrightarrow> sr_name row = trim name"
proof -
  let ?n = "parseInt ident"
  obtain v where val: "SubredditValidation_update ?n \<lparr>ud_id = oid, ud_name = Some name\<rparr> = Inr v"
    using ok
    by (cases "SubredditValidation_update ?n \<lparr>ud_id = oid, ud_name = Some name\<rparr>")
       (auto simp add: updateSubreddit_def try_catch_rethrow throw_apply)
  from SubredditValidation_update_name [OF val] obtain i where
    v: "v = \<lparr>pv_id = i, pv_name = Some name\<rparr>" and ne: "name \<noteq> []"
    by blast
  obtain existing where ex: "Subreddit_fromDatabase
      (find (\<lambda>r. Whole (sr_id r) = ?n) (tbl_rows (subreddits_table w))) = Some existing"
    using ok val
    by (auto simp add: updateSubreddit_def try_catch_rethrow throw_apply await_apply
          SubredditService_db_def SubredditRepository_findById_run split: option.splits)
  then obtain row where row: "find (\<lambda>r. Whole (sr_id r) = ?n) (tbl_rows (subreddits_table w)) = Some row"
    and existing: "existing = new_Subreddit (subreddit_row_data row)"
    by (auto simp: Subreddit_fromDatabase_def split: option.splits)
  from row have rin: "row \<in> set (tbl_rows (subreddits_table w))" and rid: "Whole (sr_id row) = ?n"
    by (auto simp: find_Some_iff in_set_conv_nth)
  with changed have "sr_name row \<noteq> name" by blast
  then have diff: "Some name \<noteq> sub_name existing"
    by (auto simp: existing new_Subreddit_def subreddit_row_data_def or_null_string_def)
  from ok val v ex diff ne obtain w1 where
    upd: "SubredditRepository_update (Some Knex) ?n \<lparr>pv_id = i, pv_name = Some (trim name)\<rparr> w1
            = (Inr r, w')"
    and w1: "tbl_rows (subreddits_table w1) = tbl_rows (subreddits_table w)"
    by (auto simp add: updateSubreddit_def try_catch_rethrow throw_apply await_apply Let_def
          SubredditService_db_def SubredditRepository_findById_run SubredditRepository_exists_run
          split: option.splits if_splits)
  from SubredditRepository_update_rows [OF upd] w1 rin rid
  show ?thesis by auto
qed

section \<open>The claims\<close>

subsection \<open>C1: a duplicate key is rejected before the repository creates anything\<close>

text \<open>
  Claim C1, as amended.  For Subreddit and Post, when the create input is valid and
  a stored row already has the normalised key, the create operation fails with the
  duplicate error and the only repository method entered is the existence check:
  the tables are unchanged and \<open>create\<close> is not called.  The Subreddit error names
  the normalised name; the Post error is the fixed text \<open>Duplicate post exists\<close>.
\<close>

theorem duplicate_create_rejected:
  "(SubredditValidation_create subredditData = Inr name
      \<and> (\<exists>r\<in>set (tbl_rows (subreddits_table w)). sr_name r = normalizeName name) \<longrightarrow>
      createSubreddit subredditData w =
        (Inl (Error (''Subreddit '' @ normalizeName name @ '' already exists'')),
         w\<lparr>calls := calls w @ [(SubredditRepo, Exists (normalizeName name))]\<rparr>))
   \<and> (PostValidation_create isUri postData = Inr v
      \<and> (\<exists>r\<in>set (tbl_rows (posts_table w)). po_title r = trim (pc_title v)) \<longrightarrow>
      createPost isUri postData w =
        (Inl (Error ''Duplicate post exists''),
         w\<lparr>calls := calls w @ [(PostRepo, ExistsByTitle (trim (pc_title v)))]\<rparr>))"
  by (simp add: createSubreddit_def createPost_def try_catch_rethrow SubredditService_db_def
      PostService_db_def await_apply SubredditRepository_exists_run
      PostRepository_existsByTitle_run throw_apply Let_def)

text \<open>
  Claim C1, an instance: \<open>" r/Gaming "\<close> against the stored subreddit \<open>gaming\<close>, and
  \<open>" Deal "\<close> against the stored post \<open>Deal\<close>.
\<close>

theorem duplicate_create_rejected_witness:
  "createSubreddit \<lparr>in_name = Some '' r/Gaming ''\<rparr> sample_world =
     (Inl (Error ''Subreddit gaming already exists''),
      sample_world\<lparr>calls := [(SubredditRepo, Exists ''gaming'')]\<rparr>)
   \<and> createPost sample_isUri
       \<lparr>pin_title = Some '' Deal '', pin_description = None, pin_links = None\<rparr> sample_world =
     (Inl (Error ''Duplicate post exists''),
      sample_world\<lparr>calls := [(PostRepo, ExistsByTitle ''Deal'')]\<rparr>)"
proof -
  have v1: "SubredditValidation_create \<lparr>in_name = Some '' r/Gaming ''\<rparr> = Inr '' r/Gaming ''"
    by code_simp
  have n1: "normalizeName '' r/Gaming '' = ''gaming''"
    by code_simp
  have e1: "\<exists>r\<in>set (tbl_rows (subreddits_table sample_world)). sr_name r = ''gaming''"
    by code_simp
  have v2: "PostValidation_create sample_isUri
              \<lparr>pin_title = Some '' Deal '', pin_description = None, pin_links = None\<rparr>
            = Inr \<lparr>pc_title = '' Deal '', pc_description = None, pc_links = []\<rparr>"
    by code_simp
  have n2: "trim '' Deal '' = ''Deal''"
    by code_simp
  have e2: "\<exists>r\<in>set (tbl_rows (posts_table sample_world)). po_title r = ''Deal''"
    by code_simp
  have c: "calls sample_world = []"
    by code_simp
  show ?thesis
    using duplicate_create_rejected
      [of "\<lparr>in_name = Some '' r/Gaming ''\<rparr>" "'' r/Gaming ''" sample_world sample_isUri
          "\<lparr>pin_title = Some '' Deal '', pin_description = None, pin_links = None\<rparr>"
          "\<lparr>pc_title = '' Deal '', pc_description = None, pc_links = []\<rparr>"]
      v1 e1 v2 e2
    by (simp add: n1 n2 c)
qed

text \<open>
  Claim C1 as stated fails.  The keyword \<open>laptop\<close> is stored, yet \<open>createKeyword\<close>
  with \<open>laptop\<close> ends in a \<open>TypeError\<close> and not in a duplicate error; and the
  duplicate error of \<open>createPost\<close> for the stored title \<open>Deal\<close> does not name the
  title.
\<close>

theorem duplicate_create_counterexample:
  "(\<exists>r\<in>set (tbl_rows (keywords_table sample_world)). kw_keyword r = ''laptop'')
   \<and> createKeyword \<lparr>in_keyword = Some ''laptop''\<rparr> sample_world =
     (Inl (TypeError ''this.keywordRepository.exists is not a function''), sample_world)
   \<and> (\<exists>r\<in>set (tbl_rows (posts_table sample_world)). po_title r = ''Deal'')
   \<and> fst (createPost sample_isUri
            \<lparr>pin_title = Some ''Deal'', pin_description = None, pin_links = None\<rparr> sample_world) =
     Inl (Error ''Duplicate post exists'')"
  by code_simp

subsection \<open>C2: the keyword service fails before it reaches the storage\<close>

text \<open>
  Claim C2.  On every input and in every state, \<open>createKeyword\<close>, \<open>getAllKeywords\<close>,
  \<open>searchKeywords\<close> and \<open>getStatistics\<close> of the keyword service end in an error and
  leave the state as it was: no repository method is entered, so no row is read or
  written.  The error is the validation error when the input is invalid, and
  otherwise the \<open>TypeError\<close> of calling the method the repository does not have.
\<close>

theorem keyword_service_fails_before_storage:
  "createKeyword keywordData w =
     (Inl (case KeywordValidation_create keywordData of
             Inl detail \<Rightarrow> Error (''Validation error: '' @ detail)
           | Inr k \<Rightarrow> TypeError ''this.keywordRepository.exists is not a function''), w)
   \<and> getAllKeywords options w =
     (Inl (case KeywordValidation_query options of
             Inl detail \<Rightarrow> Error (''Query validation error: '' @ detail)
           | Inr v \<Rightarrow> TypeError ''this.keywordRepository.findAll is not a function''), w)
   \<and> searchKeywords searchText limit w =
     (Inl (case searchText of
             None \<Rightarrow> Error ''Search text is required''
           | Some text \<Rightarrow>
               if trim text = [] then Error ''Search text is required''
               else TypeError ''this.keywordRepository.searchByText is not a function''), w)
   \<and> KeywordService_getStatistics w =
     (Inl (TypeError ''this.keywordRepository.getStatistics is not a function''), w)"
  by (simp only: createKeyword_run getAllKeywords_run searchKeywords_run getStatistics_run simp_thms)

text \<open>
  Claim C2, an instance on valid inputs.
\<close>

theorem keyword_service_fails_before_storage_witness:
  "createKeyword \<lparr>in_keyword = Some ''  gaming laptop  ''\<rparr> sample_world =
     (Inl (TypeError ''this.keywordRepository.exists is not a function''), sample_world)
   \<and> (getAllKeywords
        \<lparr>kq_page = None, kq_limit = None, kq_search = None, kq_sortBy = None, kq_sortOrder = None\<rparr>
        sample_world :: (error + unit) \<times> world) =
     (Inl (TypeError ''this.keywordRepository.findAll is not a function''), sample_world)
   \<and> (searchKeywords (Some ''laptop'') None sample_world :: (error + unit) \<times> world) =
     (Inl (TypeError ''this.keywordRepository.searchByText is not a function''), sample_world)
   \<and> (KeywordService_getStatistics sample_world :: (error + unit) \<times> world) =
     (Inl (TypeError ''this.keywordRepository.getStatistics is not a function''), sample_world)"
proof -
  have v: "KeywordValidation_create \<lparr>in_keyword = Some ''  gaming laptop  ''\<rparr>
             = Inr ''  gaming laptop  ''"
    by code_simp
  have q: "KeywordValidation_query
             \<lparr>kq_page = None, kq_limit = None, kq_search = None, kq_sortBy = None, kq_sortOrder = None\<rparr>
           = Inr \<lparr>kq_page = Some 1, kq_limit = Some 20, kq_search = None,
                  kq_sortBy = Some ''created_at'', kq_sortOrder = Some ''desc''\<rparr>"
    by code_simp
  have t: "trim ''laptop'' = ''laptop''"
    by code_simp
  show ?thesis
    using keyword_service_fails_before_storage
      [of "\<lparr>in_keyword = Some ''  gaming laptop  ''\<rparr>" sample_world
          "\<lparr>kq_page = None, kq_limit = None, kq_search = None, kq_sortBy = None, kq_sortOrder = None\<rparr>"
          "Some ''laptop''" None, where ?'b = unit and ?'c = unit and ?'a = unit]
    by (simp add: v q t)
qed

subsection \<open>C3: what a create returns\<close>

text \<open>
  Claim C3 does not hold of the code.  \<open>createKeyword\<close> with the keyword
  \<open>"  gaming laptop  "\<close>, which no stored keyword equals once trimmed and which the
  tests of the service expect to be returned as \<open>gaming laptop\<close>, returns no entity:
  it ends in the \<open>TypeError\<close> of the repository method \<open>exists\<close>, which
  \<open>KeywordRepository\<close> does not define, and the state is as before.  The sibling
  operations do what the claim says: \<open>" r/News "\<close> is created as the subreddit \<open>news\<close>
  and \<open>" New deal "\<close> as the post \<open>New deal\<close>.
\<close>

theorem createKeyword_returns_no_entity:
  "createKeyword \<lparr>in_keyword = Some ''  gaming laptop  ''\<rparr> sample_world =
     (Inl (TypeError ''this.keywordRepository.exists is not a function''), sample_world)
   \<and> KeywordValidation_create \<lparr>in_keyword = Some ''  gaming laptop  ''\<rparr> =
       Inr ''  gaming laptop  ''
   \<and> trim ''  gaming laptop  '' = ''gaming laptop''
   \<and> map kw_keyword (tbl_rows (keywords_table sample_world)) = [''laptop'']
   \<and> fst (createSubreddit \<lparr>in_name = Some '' r/News ''\<rparr> sample_world) =
       Inr (Some \<lparr>sub_id = Some 2, sub_name = Some ''news'', sub_createdAt = Some 7,
                  sub_updatedAt = Some 7\<rparr>)
   \<and> fst (createPost sample_isUri
            \<lparr>pin_title = Some '' New deal '', pin_description = Some (Some '' d ''),
             pin_links = Some [''http://a.example/x'']\<rparr> sample_world) =
       Inr (Some \<lparr>post_id = Some 2, post_title = ''New deal'', post_description = Some ''d'',
                  post_links = JsonArray [JsonString ''http://a.example/x''],
                  post_createdAt = Some 7, post_updatedAt = Some 7\<rparr>)"
  by code_simp

subsection \<open>C4: updateSubreddit writes the trimmed name\<close>

text \<open>
  Claim C4 does not hold of the code: \<open>updateSubreddit\<close> trims the new name and
  neither lower-cases it nor removes the prefix.  Renaming the subreddit 1 to
  \<open>" R/News "\<close> stores \<open>R/News\<close>, where the normalisation of \<open>createSubreddit\<close> gives
  \<open>news\<close>; \<open>getSubredditByName\<close>, which normalises its argument, then does not find
  the row under the name it was given.
\<close>

theorem updateSubreddit_stores_trimmed_name_only:
  "fst (updateSubreddit (JNumber 1) \<lparr>ud_id = None, ud_name = Some '' R/News ''\<rparr> sample_world) =
     Inr (Some \<lparr>sub_id = Some 1, sub_name = Some ''R/News'', sub_createdAt = Some 5,
                sub_updatedAt = Some 7\<rparr>)
   \<and> map sr_name (tbl_rows (subreddits_table
        (snd (updateSubreddit (JNumber 1) \<lparr>ud_id = None, ud_name = Some '' R/News ''\<rparr>
                sample_world)))) =
     [''R/News'']
   \<and> normalizeName '' R/News '' = ''news''
   \<and> fst (getSubredditByName (Some ''R/News'')
        (snd (updateSubreddit (JNumber 1) \<lparr>ud_id = None, ud_name = Some '' R/News ''\<rparr>
                sample_world))) =
     Inl (Error (''Subreddit with name '' @ quoted ''R/News'' @ '' not found''))"
  by code_simp

subsection \<open>C6: an absent id is reported before anything is changed\<close>

text \<open>
  Claim C6, as amended.  For Subreddit and Post: when the id passes the id check of
  \<open>getById\<close> and \<open>delete\<close> (it is truthy and \<open>parseInt(id)\<close> is not \<open>NaN\<close>) and no
  stored row has the id \<open>parseInt(id)\<close>, both fail with the not-found error; when the
  arguments of \<open>update\<close> pass validation and no stored row has the id \<open>parseInt(id)\<close>,
  it fails with the not-found error.  The lookup of \<open>update\<close> uses the \<open>id\<close> argument,
  also when \<open>updateData\<close> has an \<open>id\<close> of its own, which is the one validated.  In each
  case the one repository method entered is the lookup \<open>findById\<close>: the tables are
  unchanged, and neither \<open>update\<close> nor \<open>delete\<close> of the repository is called.
\<close>

theorem not_found_before_mutation:
  "(truthy ident \<and> parseInt ident \<noteq> NotANumber
      \<and> (\<forall>r\<in>set (tbl_rows (subreddits_table w)). Whole (sr_id r) \<noteq> parseInt ident) \<longrightarrow>
      getSubredditById ident w =
        (Inl (Error (''Subreddit with ID '' @ toString ident @ '' not found'')),
         w\<lparr>calls := calls w @ [(SubredditRepo, FindById (parseInt ident))]\<rparr>)
    \<and> deleteSubreddit ident w =
        (Inl (Error (''Subreddit with ID '' @ toString ident @ '' not found'')),
         w\<lparr>calls := calls w @ [(SubredditRepo, FindById (parseInt ident))]\<rparr>))
   \<and> (SubredditValidation_update (parseInt ident) subredditData = Inr sv
      \<and> (\<forall>r\<in>set (tbl_rows (subreddits_table w)). Whole (sr_id r) \<noteq> parseInt ident) \<longrightarrow>
      updateSubreddit ident subredditData w =
        (Inl (Error (''Subreddit with ID '' @ toString ident @ '' not found.'')),
         w\<lparr>calls := calls w @ [(SubredditRepo, FindById (parseInt ident))]\<rparr>))
   \<and> (truthy ident \<and> parseInt ident \<noteq> NotANumber
      \<and> (\<forall>r\<in>set (tbl_rows (posts_table w)). Whole (po_id r) \<noteq> parseInt ident) \<longrightarrow>
      getPostById ident w =
        (Inl (Error (''Post with ID '' @ toString ident @ '' not found'')),
         w\<lparr>calls := calls w @ [(PostRepo, FindById (parseInt ident))]\<rparr>)
    \<and> deletePost ident w =
        (Inl (Error (''Post with ID '' @ toString ident @ '' not found'')),
         w\<lparr>calls := calls w @ [(PostRepo, FindById (parseInt ident))]\<rparr>))
   \<and> (PostValidation_update isUri (parseInt ident) postData = Inr pv
      \<and> (\<forall>r\<in>set (tbl_rows (posts_table w)). Whole (po_id r) \<noteq> parseInt ident) \<longrightarrow>
      updatePost isUri ident postData w =
        (Inl (Error (''Post with ID '' @ toString ident @ '' not found.'')),
         w\<lparr>calls := calls w @ [(PostRepo, FindById (parseInt ident))]\<rparr>))"
  by (simp add: getSubredditById_not_found deleteSubreddit_not_found updateSubreddit_not_found
      getPostById_not_found deletePost_not_found updatePost_not_found)

text \<open>
  Claim C6, an instance: the id 999 in the sample state, whose one subreddit and one
  post have the id 1.  The \<open>updateData\<close> of \<open>updateSubreddit\<close> names the stored id 1;
  the validation accepts it, and the lookup is for 999 all the same.
\<close>

theorem not_found_before_mutation_witness:
  "getSubredditById (JNumber 999) sample_world =
     (Inl (Error ''Subreddit with ID 999 not found''),
      sample_world\<lparr>calls := [(SubredditRepo, FindById (Whole 999))]\<rparr>)
   \<and> deleteSubreddit (JNumber 999) sample_world =
     (Inl (Error ''Subreddit with ID 999 not found''),
      sample_world\<lparr>calls := [(SubredditRepo, FindById (Whole 999))]\<rparr>)
   \<and> updateSubreddit (JNumber 999) \<lparr>ud_id = Some (Whole 1), ud_name = Some ''news''\<rparr>
        sample_world =
     (Inl (Error ''Subreddit with ID 999 not found.''),
      sample_world\<lparr>calls := [(SubredditRepo, FindById (Whole 999))]\<rparr>)
   \<and> getPostById (JNumber 999) sample_world =
     (Inl (Error ''Post with ID 999 not found''),
      sample_world\<lparr>calls := [(PostRepo, FindById (Whole 999))]\<rparr>)
   \<and> deletePost (JNumber 999) sample_world =
     (Inl (Error ''Post with ID 999 not found''),
      sample_world\<lparr>calls := [(PostRepo, FindById (Whole 999))]\<rparr>)
   \<and> updatePost sample_isUri (JNumber 999)
       \<lparr>pud_id = None, pud_title = Some ''Deal 2'', pud_description = None, pud_links = None\<rparr>
       sample_world =
     (Inl (Error ''Post with ID 999 not found.''),
      sample_world\<lparr>calls := [(PostRepo, FindById (Whole 999))]\<rparr>)"
proof -
  let ?sp = "\<lparr>ud_id = Some (Whole 1), ud_name = Some ''news''\<rparr>"
  let ?sv = "\<lparr>pv_id = 1, pv_name = Some ''news''\<rparr>"
  let ?pp = "\<lparr>pud_id = None, pud_title = Some ''Deal 2'', pud_description = None,
              pud_links = None\<rparr>"
  let ?pv = "\<lparr>pp_id = 999, pp_title = Some ''Deal 2'', pp_description = None, pp_links = None\<rparr>"
  have n: "parseInt (JNumber 999) = Whole 999"
    by code_simp
  have v1: "SubredditValidation_update (Whole 999) ?sp = Inr ?sv"
    by code_simp
  have v2: "PostValidation_update sample_isUri (Whole 999) ?pp = Inr ?pv"
    by code_simp
  have a1: "\<forall>r\<in>set (tbl_rows (subreddits_table sample_world)). sr_id r \<noteq> 999"
    by code_simp
  have a2: "\<forall>r\<in>set (tbl_rows (posts_table sample_world)). po_id r \<noteq> 999"
    by code_simp
  have s: "integerToString 999 = ''999''"
    by code_simp
  have c: "calls sample_world = []"
    by code_simp
  show ?thesis
    using not_found_before_mutation
      [where ident = "JNumber 999" and w = sample_world and subredditData = ?sp
         and sv = ?sv and isUri = sample_isUri and postData = ?pp and pv = ?pv]
      v1 v2 a1 a2
    by (simp add: n s c)
qed

text \<open>
  Claim C6 as stated fails.  No subreddit and no post of the sample state has the id
  0, yet \<open>getSubredditById\<close>, \<open>deleteSubreddit\<close>, \<open>getPostById\<close> and \<open>deletePost\<close> refuse
  the id 0 as invalid and do not report it as not found.
\<close>

theorem not_found_counterexample:
  "map sr_id (tbl_rows (subreddits_table sample_world)) = [1]
   \<and> getSubredditById (JNumber 0) sample_world =
     (Inl (Error ''Invalid subreddit ID''), sample_world)
   \<and> deleteSubreddit (JNumber 0) sample_world =
     (Inl (Error ''Invalid subreddit id''), sample_world)
   \<and> map po_id (tbl_rows (posts_table sample_world)) = [1]
   \<and> getPostById (JNumber 0) sample_world = (Inl (Error ''Invalid post ID''), sample_world)
   \<and> deletePost (JNumber 0) sample_world = (Inl (Error ''Invalid post ID''), sample_world)"
  by code_simp

subsection \<open>C7: the id check of getById\<close>

text \<open>
  Claim C7, as amended.  \<open>getKeywordById\<close>, \<open>getSubredditById\<close> and \<open>getPostById\<close>
  refuse an id with the invalid-id error, without entering a repository method,
  when the id is falsy (missing, \<open>null\<close>, \<open>0\<close>, \<open>NaN\<close>, the empty string) or
  \<open>parseInt\<close> reads no number from it, as it does from \<open>Infinity\<close> and \<open>-Infinity\<close>.
  Every other id is handed to the lookup of the repository as the number
  \<open>parseInt(id)\<close>.  A safe integer (of absolute value below \<open>2^53\<close>) is accepted
  exactly when it is not zero, and is handed on as it is.
\<close>

theorem getById_id_check:
  "(\<not> truthy ident \<or> parseInt ident = NotANumber \<longrightarrow>
      getKeywordById ident w = (Inl (Error ''Invalid keyword ID''), w)
    \<and> getSubredditById ident w = (Inl (Error ''Invalid subreddit ID''), w)
    \<and> getPostById ident w = (Inl (Error ''Invalid post ID''), w))
   \<and> (truthy ident \<and> parseInt ident \<noteq> NotANumber \<longrightarrow>
      calls (snd (getKeywordById ident w)) = calls w @ [(KeywordRepo, FindById (parseInt ident))]
    \<and> calls (snd (getSubredditById ident w)) =
        calls w @ [(SubredditRepo, FindById (parseInt ident))]
    \<and> calls (snd (getPostById ident w)) = calls w @ [(PostRepo, FindById (parseInt ident))])
   \<and> (\<bar>k\<bar> < 9007199254740992 \<longrightarrow>
        parseInt (JNumber k) = Whole k
      \<and> (truthy (JNumber k) \<and> parseInt (JNumber k) \<noteq> NotANumber \<longleftrightarrow> k \<noteq> 0))
   \<and> parseInt JInfinity = NotANumber \<and> parseInt JMinusInfinity = NotANumber
   \<and> \<not> truthy JUndefined \<and> \<not> truthy JNull \<and> \<not> truthy JNaN \<and> \<not> truthy (JString [])"
proof -
  have inf: "parseInt JInfinity = NotANumber" "parseInt JMinusInfinity = NotANumber"
    by code_simp+
  show ?thesis
    by (simp add: getKeywordById_invalid getSubredditById_invalid getPostById_invalid
        getKeywordById_valid getSubredditById_valid getPostById_valid parseInt_safe inf)
qed

text \<open>
  Claim C7, instances: the text \<open>abc\<close> and \<open>Infinity\<close> are refused, the number 7 is
  looked up as 7.
\<close>

theorem getById_id_check_witness:
  "getKeywordById (JString ''abc'') sample_world = (Inl (Error ''Invalid keyword ID''), sample_world)
   \<and> getSubredditById (JString ''abc'') sample_world =
       (Inl (Error ''Invalid subreddit ID''), sample_world)
   \<and> getPostById (JString ''abc'') sample_world = (Inl (Error ''Invalid post ID''), sample_world)
   \<and> getSubredditById JInfinity sample_world =
       (Inl (Error ''Invalid subreddit ID''), sample_world)
   \<and> calls (snd (getKeywordById (JNumber 7) sample_world)) = [(KeywordRepo, FindById (Whole 7))]
   \<and> calls (snd (getSubredditById (JNumber 7) sample_world)) =
       [(SubredditRepo, FindById (Whole 7))]
   \<and> calls (snd (getPostById (JNumber 7) sample_world)) = [(PostRepo, FindById (Whole 7))]"
proof -
  have a: "parseInt (JString ''abc'') = NotANumber"
    by code_simp
  have c: "calls sample_world = []"
    by code_simp
  show ?thesis
    using getById_id_check [where ident = "JString ''abc''" and w = sample_world and k = 7]
      getById_id_check [where ident = "JInfinity" and w = sample_world and k = 7]
      getById_id_check [where ident = "JNumber 7" and w = sample_world and k = 7]
    by (simp add: a c)
qed

text \<open>
  Claim C7 as stated fails: the numeric id 0 is refused by all three operations;
  the text \<open>12abc\<close>, which is not a number, is looked up as 12; and the number
  \<open>10^21\<close>, whose text is \<open>1e+21\<close>, is looked up as 1.
\<close>

theorem getById_id_check_counterexample:
  "getKeywordById (JNumber 0) sample_world = (Inl (Error ''Invalid keyword ID''), sample_world)
   \<and> getSubredditById (JNumber 0) sample_world =
       (Inl (Error ''Invalid subreddit ID''), sample_world)
   \<and> getPostById (JNumber 0) sample_world = (Inl (Error ''Invalid post ID''), sample_world)
   \<and> calls (snd (getPostById (JString ''12abc'') sample_world)) = [(PostRepo, FindById (Whole 12))]
   \<and> toString (JNumber 1000000000000000000000) = ''1e+21''
   \<and> calls (snd (getPostById (JNumber 1000000000000000000000) sample_world)) =
       [(PostRepo, FindById (Whole 1))]"
  by code_simp

subsection \<open>C8: the pagination law\<close>



subsection \<open>C9: a blank search text is refused\<close>

text \<open>
  Claim C9.  When the search text is missing, empty or white space only, each of
  \<open>searchKeywords\<close>, \<open>searchSubreddits\<close> and \<open>searchPosts\<close> fails and leaves the state
  as it was: no repository method is entered.  \<open>searchSubreddits\<close> fails on a
  missing text with the \<open>TypeError\<close> of \<open>.trim()\<close>, in every other case the error is
  \<open>Search text is required\<close>.
\<close>

theorem blank_search_rejected:
  assumes "case searchText of None \<Rightarrow> True | Some text \<Rightarrow> trim text = []"
  shows "searchKeywords searchText limit w = (Inl (Error ''Search text is required''), w)
       \<and> searchSubreddits searchText limit w =
           (Inl (case searchText of None \<Rightarrow> trim_of_undefined
                 | Some text \<Rightarrow> Error ''Search text is required''), w)
       \<and> searchPosts searchText limit w = (Inl (Error ''Search text is required''), w)"
  using assms
  by (cases searchText)
     (auto simp add: searchKeywords_run searchPosts_blank searchSubreddits_def
        try_catch_rethrow throw_apply Let_def)

text \<open>
  Claim C9, an instance: three spaces.
\<close>

theorem blank_search_rejected_witness:
  "(searchKeywords (Some ''   '') None sample_world :: (error + unit) \<times> world) =
     (Inl (Error ''Search text is required''), sample_world)
   \<and> searchSubreddits (Some ''   '') None sample_world =
     (Inl (Error ''Search text is required''), sample_world)
   \<and> searchPosts (Some ''   '') None sample_world =
     (Inl (Error ''Search text is required''), sample_world)"
proof -
  have t: "trim ''   '' = []"
    by code_simp
  show ?thesis
    using blank_search_rejected
      [where searchText = "Some ''   ''" and limit = None and w = sample_world and ?'a = unit]
    by (simp add: t)
qed

subsection \<open>C10: the hasLinks filter\<close>

text \<open>
  Claim C10, as amended.  \<open>getAllPosts\<close> with \<open>hasLinks: true\<close> counts exactly the
  rows matching the search whose \<open>links\<close> column is not \<open>NULL\<close> and not the text
  \<open>[]\<close>, and returns only posts built from such rows.  The links of such a post are
  what \<open>parseLinks\<close> reads from the column; they are the non-empty list \<open>ls\<close> whenever
  the column holds \<open>JSON.stringify(ls)\<close> for a list of texts, which is what the
  repository writes.
\<close>

theorem hasLinks_filter:
  "fst (getAllPosts options w) = Inr res \<and> pq_hasLinks options = Some True \<longrightarrow>
     pg_total res =
       int (length (filter (\<lambda>r. posts_matching (pq_search options) None r
                                \<and> (\<exists>s. po_links r = Some s \<and> s \<noteq> ''[]''))
                      (tbl_rows (posts_table w))))
     \<and> (\<forall>p\<in>set (pg_posts res). \<exists>r\<in>set (tbl_rows (posts_table w)). \<exists>s.
           po_links r = Some s \<and> s \<noteq> ''[]'' \<and> p = new_Post (post_row_data r)
         \<and> post_links p = parseLinks (Some (JsonString s))
         \<and> (\<forall>ls. s = JSON_stringify (JsonArray (map JsonString ls)) \<longrightarrow>
                ls \<noteq> [] \<and> post_links p = JsonArray (map JsonString ls)))"
  using getAllPosts_hasLinks [of options w res] by blast

text \<open>
  Claim C10, an instance: of three rows, with one link, with \<open>[]\<close> and with \<open>NULL\<close>,
  the first is returned.
\<close>

theorem hasLinks_filter_witness:
  \<open>fst (getAllPosts \<lparr>pq_page = None, pq_limit = None, pq_search = None, pq_hasLinks = Some True\<rparr>
          links_world) =
     Inr \<lparr>pg_posts = [\<lparr>post_id = Some 1, post_title = ''Laptop sale'',
                        post_description = Some ''cheap'',
                        post_links = JsonArray [JsonString ''http://a.example/x''],
                        post_createdAt = Some 2, post_updatedAt = Some 2\<rparr>],
          pg_total = 1, pg_page = Whole 1, pg_limit = Whole 20, pg_pages = Whole 1\<rparr>
   \<and> map po_links (tbl_rows (posts_table links_world)) =
       [Some (JSON_stringify (JsonArray (map JsonString [''http://a.example/x'']))),
        Some ''[]'', None]\<close>
proof -
  let ?o = "\<lparr>pq_page = None, pq_limit = None, pq_search = None, pq_hasLinks = Some True\<rparr>"
  let ?res = "\<lparr>pg_posts = [\<lparr>post_id = Some 1, post_title = ''Laptop sale'',
                        post_description = Some ''cheap'',
                        post_links = JsonArray [JsonString ''http://a.example/x''],
                        post_createdAt = Some 2, post_updatedAt = Some 2\<rparr>],
          pg_total = 1, pg_page = Whole 1, pg_limit = Whole 20, pg_pages = Whole 1\<rparr>"
  have r: "fst (getAllPosts ?o links_world) = Inr ?res"
    by code_simp
  have l: "map po_links (tbl_rows (posts_table links_world)) =
       [Some (JSON_stringify (JsonArray (map JsonString [''http://a.example/x'']))),
        Some ''[]'', None]"
    by code_simp
  show ?thesis
    using hasLinks_filter [where options = ?o and w = links_world and res = ?res] r l
    by simp
qed

text \<open>
  Claim C10 as stated fails for a table state the repository did not write: a row
  whose \<open>links\<close> column is the empty text passes the filter and is returned with an
  empty sequence of links.
\<close>

theorem hasLinks_counterexample:
  "map po_links (tbl_rows (posts_table sample_world)) = [Some []]
   \<and> fst (getAllPosts \<lparr>pq_page = None, pq_limit = None, pq_search = None, pq_hasLinks = Some True\<rparr>
            sample_world) =
     Inr \<lparr>pg_posts = [\<lparr>post_id = Some 1, post_title = ''Deal'', post_description = None,
                        post_links = JsonArray [], post_createdAt = Some 6,
                        post_updatedAt = Some 6\<rparr>],
          pg_total = 1, pg_page = Whole 1, pg_limit = Whole 20, pg_pages = Whole 1\<rparr>"
  by code_simp


end
